theory Spec2Isabelle
  imports Complex_Main
begin

section \<open>Common values\<close>

text \<open>
  JavaScript strings are modelled as \<^typ>\<open>string\<close>: a list of code units below 256.
  A value that may be \<^verbatim>\<open>undefined\<close> or \<^verbatim>\<open>null\<close> is an \<^typ>\<open>'a option\<close>, with
  \<^term>\<open>None\<close> for both. Every \<^verbatim>\<open>throw\<close> of the source is a value of \<open>error\<close>:
  \<open>Error m\<close> is \<^verbatim>\<open>new Error(m)\<close>, \<open>AlmError k\<close> is \<^verbatim>\<open>almError(k)\<close>, \<open>TypeError\<close> is what the
  runtime raises on a property read of \<^verbatim>\<open>undefined\<close>, and \<open>Rejected m\<close> is a failure
  handed back by a collaborator that is not part of this source.
\<close>

datatype error = Error string | AlmError string | TypeError | Rejected string

text \<open>Truthiness of a string that may be undefined: the empty string is falsy.\<close>

definition truthy :: "string option \<Rightarrow> bool" where
  "truthy v = (case v of None \<Rightarrow> False | Some s \<Rightarrow> s \<noteq> [])"

text \<open>\<^verbatim>\<open>String.prototype.trim\<close>, on the white space and line terminators below 256.\<close>

definition isWhitespace :: "char \<Rightarrow> bool" where
  "isWhitespace c =
     (c \<in> set [CHR 0x09, CHR 0x0A, CHR 0x0B, CHR 0x0C, CHR 0x0D, CHR 0x20, CHR 0xA0])"

definition trim :: "string \<Rightarrow> string" where
  "trim s = rev (dropWhile isWhitespace (rev (dropWhile isWhitespace s)))"

text \<open>\<^verbatim>\<open>s.split(sep)\<close> for a separator of one character; the result is never empty.\<close>

fun split_sep :: "char \<Rightarrow> string \<Rightarrow> string list" where
  "split_sep sep [] = [[]]"
| "split_sep sep (c # cs) =
     (if c = sep then [] # split_sep sep cs
      else (case split_sep sep cs of
              [] \<Rightarrow> [[c]]
            | w # ws \<Rightarrow> (c # w) # ws))"

text \<open>\<^verbatim>\<open>s.replace(/\\/g, '/')\<close>: every backslash becomes a forward slash.\<close>

definition backslash :: char where
  "backslash = CHR 0x5C"

definition replaceBackslashes :: "string \<Rightarrow> string" where
  "replaceBackslashes s = map (\<lambda>c. if c = backslash then CHR ''/'' else c) s"

text \<open>The index of the first element that satisfies a predicate, as \<^verbatim>\<open>Array.find\<close> visits them.\<close>

fun findIndex :: "('a \<Rightarrow> bool) \<Rightarrow> 'a list \<Rightarrow> nat option" where
  "findIndex P [] = None"
| "findIndex P (x # xs) =
     (if P x then Some 0 else map_option Suc (findIndex P xs))"

section \<open>MdapiPackage\<close>

text \<open>
  One entry of \<^verbatim>\<open>Package.types\<close>: a type name and its members. A fresh entry is created
  as \<^verbatim>\<open>{ name: type.trim() }\<close>, with no members property yet.
\<close>

record manifest_type =
  type_name :: string
  members :: "string list option"

record MdapiPackage =
  types :: "manifest_type list"
  version :: "string option"
  packageFullName :: "string option"

definition isEmpty :: "MdapiPackage \<Rightarrow> bool" where
  "isEmpty this = (length (types this) < 1)"

definition setPackageName :: "MdapiPackage \<Rightarrow> string option \<Rightarrow> MdapiPackage" where
  "setPackageName this packageName = this\<lparr>packageFullName := packageName\<rparr>"

definition isBundleType :: "string \<Rightarrow> bool" where
  "isBundleType type =
     (type = ''AuraDefinitionBundle'' \<or> type = ''LightningComponentBundle''
      \<or> type = ''WaveTemplateBundle'')"

text \<open>
  The steps of \<^verbatim>\<open>addMember(fullName, type)\<close>, in the order of the source.

  Finding the type (\<^verbatim>\<open>types.find(elementType => elementType.name === type)\<close>): the search
  compares the stored name with \<^verbatim>\<open>type\<close> as given. When none is found, a new entry named
  \<^verbatim>\<open>type.trim()\<close>, without a members property, is pushed. \<^verbatim>\<open>localType\<close> is a reference
  into the array, so it is modelled by the array and the index of the entry.
\<close>

definition findOrCreateType :: "manifest_type list \<Rightarrow> string \<Rightarrow> manifest_type list \<times> nat" where
  "findOrCreateType types0 type =
     (case findIndex (\<lambda>elementType. type_name elementType = type) types0 of
        Some i \<Rightarrow> (types0, i)
      | None \<Rightarrow> (types0 @ [\<lparr>type_name = trim type, members = None\<rparr>], length types0))"

text \<open>
  The name that is stored: the trimmed full name, cut at the first \<^verbatim>\<open>path.sep\<close> for the
  three bundle types, then with forward slashes for every type but \<^verbatim>\<open>Layout\<close>. Both
  tests read \<^verbatim>\<open>type\<close> as given. The argument \<open>sep\<close> is \<^verbatim>\<open>path.sep\<close> of the platform.
\<close>

definition storedName :: "char \<Rightarrow> string \<Rightarrow> string \<Rightarrow> string" where
  "storedName sep fullName type =
     (let fullNameTrimmed = trim fullName;
          fullNameTrimmed =
            (if isBundleType type then split_sep sep fullNameTrimmed ! 0 else fullNameTrimmed)
      in if type \<noteq> ''Layout'' then replaceBackslashes fullNameTrimmed else fullNameTrimmed)"

text \<open>
  The push: \<^verbatim>\<open>member = members.find(memberElement => memberElement === fullNameTrimmed)\<close>
  and then \<^verbatim>\<open>if (!member) members.push(fullNameTrimmed)\<close>; the test is the truthiness of
  the string that \<^verbatim>\<open>find\<close> returned.
\<close>

definition pushMember :: "string list \<Rightarrow> string \<Rightarrow> string list" where
  "pushMember ms fullNameTrimmed =
     (let member = find (\<lambda>memberElement. memberElement = fullNameTrimmed) ms
      in if \<not> truthy member then ms @ [fullNameTrimmed] else ms)"

definition addMember ::
  "char \<Rightarrow> MdapiPackage \<Rightarrow> string option \<Rightarrow> string option \<Rightarrow> error + MdapiPackage" where
  "addMember sep this fullName type =
     (case fullName of
        None \<Rightarrow> Inl (AlmError ''fullNameIsRequired'')
      | Some fn \<Rightarrow>
          if length (trim fn) = 0 then Inl (AlmError ''fullNameIsRequired'')
          else
            (case type of
               None \<Rightarrow> Inl (AlmError ''metadataTypeIsRequired'')
             | Some ty \<Rightarrow>
                 if length (trim ty) = 0 then Inl (AlmError ''metadataTypeIsRequired'')
                 else
                   (case findOrCreateType (types this) ty of
                      (types1, i) \<Rightarrow>
                        let localType = types1 ! i;
                            members0 = (case members localType of None \<Rightarrow> [] | Some ms \<Rightarrow> ms);
                            members1 = pushMember members0 (storedName sep fn ty)
                        in Inr (this\<lparr>types :=
                                  types1[i := localType\<lparr>members := Some members1\<rparr>]\<rparr>))))"

text \<open>Two calls in a row, the second on the package the first one left.\<close>

definition addMemberTwice ::
  "char \<Rightarrow> MdapiPackage \<Rightarrow> string option \<Rightarrow> string option \<Rightarrow> error + MdapiPackage" where
  "addMemberTwice sep this fullName type =
     (case addMember sep this fullName type of
        Inl e \<Rightarrow> Inl e
      | Inr this1 \<Rightarrow> addMember sep this1 fullName type)"

text \<open>The package of the constructor, before \<^verbatim>\<open>setVersion\<close> stores the configured version.\<close>

definition emptyPackage :: MdapiPackage where
  "emptyPackage = \<lparr>types = [], version = None, packageFullName = None\<rparr>"

text \<open>The names stored for an entry; an entry without a members property stores none.\<close>

definition membersOf :: "manifest_type \<Rightarrow> string list" where
  "membersOf t = (case members t of None \<Rightarrow> [] | Some ms \<Rightarrow> ms)"

text \<open>No stored name outside a \<^verbatim>\<open>Layout\<close> entry holds a backslash.\<close>

definition noBackslashOutsideLayout :: "manifest_type list \<Rightarrow> bool" where
  "noBackslashOutsideLayout ts =
     (\<forall>t \<in> set ts. type_name t \<noteq> ''Layout'' \<longrightarrow> (\<forall>m \<in> set (membersOf t). backslash \<notin> set m))"

text \<open>The names stored at an index of the array; none where the array has no such entry.\<close>

definition membersAt :: "manifest_type list \<Rightarrow> nat \<Rightarrow> string list" where
  "membersAt ts i = (if i < length ts then membersOf (ts ! i) else [])"

text \<open>The first path segment of a name: everything before the first separator.\<close>

definition firstSegment :: "char \<Rightarrow> string \<Rightarrow> string" where
  "firstSegment sep s = takeWhile (\<lambda>c. c \<noteq> sep) s"

section \<open>PackageInstallCommand\<close>

subsection \<open>Constants of the module\<close>

text \<open>
  A number is modelled by its value, a \<^typ>\<open>rat\<close> (every finite double is one); a field in
  which the source only ever stores a whole number is an \<^typ>\<open>int\<close>. The products, the
  quotients and \<^verbatim>\<open>parseInt\<close> of \<^verbatim>\<open>execute\<close> are those of the runtime, which rounds: the
  model takes them as a parameter, \<open>arithmetic\<close> below, and defines none of them.
  \<^verbatim>\<open>Math.ceil\<close> and the comparisons are exact on every finite number. The intervals are
  positive in every run of the source; \<^verbatim>\<open>Infinity\<close> and \<^verbatim>\<open>NaN\<close> are outside the model.
\<close>

definition DEFAULT_POLL_INTERVAL_MILLIS :: int where
  "DEFAULT_POLL_INTERVAL_MILLIS = 5000"

definition REPLICATION_POLLING_INTERVAL_MILLIS :: int where
  "REPLICATION_POLLING_INTERVAL_MILLIS = 10000"

definition DEFAULT_MAX_RETRIES :: rat where
  "DEFAULT_MAX_RETRIES = 0"

definition RETRY_MINUTES_IN_MILLIS :: int where
  "RETRY_MINUTES_IN_MILLIS = 60000"

definition DEFAULT_PUBLISH_WAIT_MIN :: rat where
  "DEFAULT_PUBLISH_WAIT_MIN = 0"

definition SECURITY_TYPE_MAP :: "string \<rightharpoonup> string" where
  "SECURITY_TYPE_MAP = map_of [(''AllUsers'', ''full''), (''AdminsOnly'', ''none'')]"

definition UPGRADE_TYPE_KEY_DELETE :: string where
  "UPGRADE_TYPE_KEY_DELETE = ''Delete''"

definition UPGRADE_TYPE_KEY_MIXED :: string where
  "UPGRADE_TYPE_KEY_MIXED = ''Mixed''"

definition UPGRADE_TYPE_MAP :: "string \<rightharpoonup> string" where
  "UPGRADE_TYPE_MAP =
     map_of [(''Delete'', ''delete-only''), (''DeprecateOnly'', ''deprecate-only''),
             (''Mixed'', ''mixed-mode'')]"

definition APEX_COMPILE_KEY_ALL :: string where
  "APEX_COMPILE_KEY_ALL = ''all''"

definition APEX_COMPILE_MAP :: "string \<rightharpoonup> string" where
  "APEX_COMPILE_MAP = map_of [(''all'', ''all''), (''package'', ''package'')]"

text \<open>\<^verbatim>\<open>Map.prototype.get\<close> with a key that may be undefined: no string key matches it.\<close>

definition mapGet :: "(string \<rightharpoonup> string) \<Rightarrow> string option \<Rightarrow> string option" where
  "mapGet m key = (case key of None \<Rightarrow> None | Some k \<Rightarrow> m k)"

subsection \<open>Data\<close>

text \<open>The resource that \<^verbatim>\<open>toolingRetrieve\<close> returns for a \<^verbatim>\<open>PackageInstallRequest\<close>.\<close>

record install_error =
  message :: string

record install_errors =
  errors :: "install_error list option"

record PackageInstallRequest =
  RequestId :: string
  Status :: string
  SubscriberPackageVersionKey :: string
  Errors :: "install_errors option"

text \<open>
  The payload \<^verbatim>\<open>this.packageInstallRequest\<close>, an object that starts as \<^verbatim>\<open>{}\<close>. A field
  is \<^term>\<open>None\<close> while it is absent and also after \<^verbatim>\<open>undefined\<close> was assigned to it: a
  read gives \<^verbatim>\<open>undefined\<close> in both cases, and neither is serialised.
\<close>

record install_payload =
  subscriberPackageVersionKey :: "string option"
  password :: "string option"
  upgradeType :: "string option"
  apexCompileType :: "string option"
  securityType :: "string option"
  nameConflictResolution :: "string option"
  packageInstallSource :: "string option"
  enableRss :: "bool option"

definition emptyPayload :: install_payload where
  "emptyPayload =
     \<lparr>subscriberPackageVersionKey = None, password = None, upgradeType = None,
      apexCompileType = None, securityType = None, nameConflictResolution = None,
      packageInstallSource = None, enableRss = None\<rparr>"

text \<open>What the version query returns, as far as \<^verbatim>\<open>execute\<close> reads it.\<close>

record SubscriberPackageVersion =
  package2ContainerOptions :: "string option"
  trustedSites :: "string list option"

text \<open>\<^verbatim>\<open>context.flags\<close>: the values of the command line; the two waits are numbers.\<close>

record flags =
  flag_id :: "string option"
  flag_package :: "string option"
  flag_wait :: "rat option"
  flag_installationkey :: "string option"
  flag_publishwait :: "rat option"
  flag_upgradetype :: "string option"
  flag_apexcompile :: "string option"
  flag_securitytype :: "string option"
  flag_noprompt :: bool

text \<open>An entry of \<^verbatim>\<open>context.command.flags\<close>, the declaration of a flag.\<close>

record flag_declaration =
  decl_name :: string
  decl_char :: string

text \<open>
  \<^verbatim>\<open>context.org\<close> with its \<^verbatim>\<open>config\<close> and \<^verbatim>\<open>force\<close>. The remote side is not part of this
  source: \<open>toolingCreate\<close> answers with the \<^verbatim>\<open>id\<close> of its result, which may be missing, and
  \<open>toolingRetrieve id k\<close> is the answer to the retrieve number \<open>k\<close> of a run, counted from 0.
\<close>

record org =
  org_name :: string
  getApiVersion :: rat
  toolingCreate :: "install_payload \<Rightarrow> error + string option"
  toolingRetrieve :: "string \<Rightarrow> nat \<Rightarrow> error + PackageInstallRequest"

record install_context =
  ctx_flags :: flags
  command_flags :: "flag_declaration list"
  ctx_org :: org

text \<open>
  The imports of the module that are not part of this source, taken as parameters: the two
  message catalogues and the helpers of \<^verbatim>\<open>packageUtils\<close>. \<open>idPrefix\<close> is
  \<^verbatim>\<open>pkgUtils.BY_LABEL.SUBSCRIBER_PACKAGE_VERSION_ID.prefix\<close>; \<open>validateId\<close> says whether
  \<^verbatim>\<open>pkgUtils.validateId\<close> returns rather than throws. With them comes the arithmetic
  of the runtime on numbers: \<open>jsTimes\<close> is \<^verbatim>\<open>*\<close>, \<open>jsDivide\<close> is \<^verbatim>\<open>/\<close> and \<open>jsParseInt\<close> is
  \<^verbatim>\<open>parseInt\<close> applied to a number.
\<close>

record arithmetic =
  jsTimes :: "rat \<Rightarrow> rat \<Rightarrow> rat"
  jsDivide :: "rat \<Rightarrow> rat \<Rightarrow> rat"
  jsParseInt :: "rat \<Rightarrow> rat"

record collaborators =
  arith :: arithmetic
  getMessage :: "string \<Rightarrow> string list \<Rightarrow> string \<Rightarrow> string"
  packagingMessage :: "string \<Rightarrow> string"
  idPrefix :: string
  getPackageIdFromAlias :: "string \<Rightarrow> error + string"
  validateId :: "string option \<Rightarrow> bool"
  getSubscriberPackageVersionQuery ::
    "string option \<Rightarrow> string option \<Rightarrow> int \<Rightarrow> int \<Rightarrow> error + SubscriberPackageVersion"

text \<open>What a run does that is visible outside, in the order it happens.\<close>

datatype event =
    Log string
  | LogError string string
  | AliasLookup string
  | VersionQuery "string option" "string option" int int
  | Prompt string
  | Create install_payload
  | Retrieve string
  | Delay int

text \<open>The fields of the command object; \<^verbatim>\<open>configApi\<close> and \<^verbatim>\<open>force\<close> are read through \<open>org\<close>.\<close>

record PackageInstallCommand =
  pollIntervalMillis :: int
  replicationPollIntervalMillis :: int
  maxRetries :: rat
  allPackageVersionId :: "string option"
  installationKey :: "string option"
  publishwait :: rat
  stdinPrompt :: "(string \<Rightarrow> string) option"
  packageInstallRequest :: install_payload
  org :: "org option"

text \<open>The constructor.\<close>

definition newPackageInstallCommand :: "(string \<Rightarrow> string) option \<Rightarrow> PackageInstallCommand" where
  "newPackageInstallCommand prompter =
     \<lparr>pollIntervalMillis = DEFAULT_POLL_INTERVAL_MILLIS,
      replicationPollIntervalMillis = REPLICATION_POLLING_INTERVAL_MILLIS,
      maxRetries = DEFAULT_MAX_RETRIES,
      allPackageVersionId = None,
      installationKey = None,
      publishwait = DEFAULT_PUBLISH_WAIT_MIN,
      stdinPrompt = prompter,
      packageInstallRequest = emptyPayload,
      org = None\<rparr>"

text \<open>
  A step of a method: the command object it leaves, the events it caused, and either the
  error it threw or its value. \<open>andThen\<close> is the sequencing of two steps: an error ends
  the run, otherwise the second step starts from the object the first one left.
\<close>

type_synonym 'a outcome = "PackageInstallCommand \<times> event list \<times> (error + 'a)"

definition andThen ::
  "'a outcome \<Rightarrow> (PackageInstallCommand \<Rightarrow> 'a \<Rightarrow> 'b outcome) \<Rightarrow> 'b outcome" where
  "andThen m k =
     (case m of
        (this, evs, Inl e) \<Rightarrow> (this, evs, Inl e)
      | (this, evs, Inr x) \<Rightarrow>
          (case k this x of (this', evs', r) \<Rightarrow> (this', evs @ evs', r)))"

definition eventsOf :: "'a outcome \<Rightarrow> event list" where
  "eventsOf m = fst (snd m)"

definition resultOf :: "'a outcome \<Rightarrow> error + 'a" where
  "resultOf m = snd (snd m)"

subsection \<open>Rendering\<close>

text \<open>A number in a template literal: the decimal digits of a natural number.\<close>

fun showNat :: "nat \<Rightarrow> string" where
  "showNat n =
     (if n < 10 then [''0123456789'' ! n]
      else showNat (n div 10) @ [''0123456789'' ! (n mod 10)])"

declare showNat.simps [simp del]

text \<open>A string that may be undefined, in a template literal.\<close>

definition render :: "string option \<Rightarrow> string" where
  "render v = (case v of None \<Rightarrow> ''undefined'' | Some s \<Rightarrow> s)"

text \<open>\<^verbatim>\<open>Array.prototype.join\<close>.\<close>

fun joinWith :: "string \<Rightarrow> string list \<Rightarrow> string" where
  "joinWith sep [] = []"
| "joinWith sep [x] = x"
| "joinWith sep (x # y # ys) = x @ sep @ joinWith sep (y # ys)"

text \<open>\<^verbatim>\<open>String.prototype.toUpperCase\<close> on the letters of ASCII; other characters stay.\<close>

definition toUpperChar :: "char \<Rightarrow> char" where
  "toUpperChar c =
     (case map_of (zip ''abcdefghijklmnopqrstuvwxyz'' ''ABCDEFGHIJKLMNOPQRSTUVWXYZ'') c of
        None \<Rightarrow> c
      | Some u \<Rightarrow> u)"

definition toUpperCase :: "string \<Rightarrow> string" where
  "toUpperCase s = map toUpperChar s"

definition startsWith :: "string \<Rightarrow> string \<Rightarrow> bool" where
  "startsWith s p = (take (length p) s = p)"

subsection \<open>readInstallErrorsAsString\<close>

text \<open>
  The loop \<^verbatim>\<open>for (let i = 0; i < len; i++) errorMessage += `\n${i + 1}) ${errorsArray[i].message}`\<close>,
  with the index and the message built so far as its state.
\<close>

function appendErrors :: "install_error list \<Rightarrow> nat \<Rightarrow> string \<Rightarrow> string" where
  "appendErrors errorsArray i errorMessage =
     (if i < length errorsArray
      then appendErrors errorsArray (i + 1)
             (errorMessage @ ''\<newline>'' @ showNat (i + 1) @ '') '' @ message (errorsArray ! i))
      else errorMessage)"
  by pat_completeness auto
termination
  by (relation "measure (\<lambda>(errorsArray, i, errorMessage). length errorsArray - i)") auto

declare appendErrors.simps [simp del]

definition readInstallErrorsAsString :: "PackageInstallRequest \<Rightarrow> string" where
  "readInstallErrorsAsString request =
     (case Errors request of
        None \<Rightarrow> ''<empty>''
      | Some es \<Rightarrow>
          (case errors es of
             None \<Rightarrow> ''<empty>''
           | Some errorsArray \<Rightarrow>
               if length errorsArray > 0
               then appendErrors errorsArray 0 ''Installation errors: ''
               else ''<empty>''))"

text \<open>The numbered lines of the message, one for each entry, written without the loop.\<close>

definition numberedLines :: "install_error list \<Rightarrow> string" where
  "numberedLines es =
     concat (map (\<lambda>i. ''\<newline>'' @ showNat (i + 1) @ '') '' @ message (es ! i)) [0..<length es])"

subsection \<open>poll\<close>

text \<open>
  \<^verbatim>\<open>poll(context, id, retries)\<close> (the id is \<open>requestId\<close> here), with the number \<open>k\<close> of the retrieve it is about to make.
  The number of retries is whatever \<^verbatim>\<open>execute\<close> computed, a quotient; the recursion ends
  because each call takes 1 from a positive number.
\<close>

function poll ::
  "collaborators \<Rightarrow> install_context \<Rightarrow> PackageInstallCommand \<Rightarrow> string \<Rightarrow> rat \<Rightarrow> nat
   \<Rightarrow> PackageInstallRequest outcome" where
  "poll env ctx this requestId retries k =
     (let this1 = this\<lparr>org := Some (ctx_org ctx)\<rparr>
      in case toolingRetrieve (ctx_org ctx) requestId k of
           Inl e \<Rightarrow> (this1, [Retrieve requestId], Inl e)
         | Inr request \<Rightarrow>
             if Status request = ''SUCCESS'' then (this1, [Retrieve requestId], Inr request)
             else if Status request = ''ERROR'' then
               (let err = readInstallErrorsAsString request
                in (this1,
                    [Retrieve requestId, LogError ''Encountered errors installing the package!'' err],
                    Inl (Error err)))
             else if retries > 0 then
               (case poll env ctx this1 requestId (retries - 1) (Suc k) of
                  (this2, evs, r) \<Rightarrow>
                    (this2,
                     [Retrieve requestId,
                      Log (getMessage env ''installStatus'' [Status request] ''packaging''),
                      Delay (pollIntervalMillis this1)] @ evs,
                     r))
             else (this1, [Retrieve requestId], Inr request))"
  by pat_completeness auto
termination
  by (relation "measure (\<lambda>(env, ctx, this, requestId, retries, k). nat \<lceil>retries\<rceil>)") auto

declare poll.simps [simp del]

subsection \<open>execute\<close>

text \<open>
  The check of the two identifier flags. When it fails, the two declarations are looked up
  in \<^verbatim>\<open>context.command.flags\<close> and their \<^verbatim>\<open>name\<close> and \<^verbatim>\<open>char\<close> are read for the message;
  reading them from a declaration that was not found is a \<open>TypeError\<close>.
\<close>

definition checkRequiredFlags ::
  "collaborators \<Rightarrow> install_context \<Rightarrow> PackageInstallCommand \<Rightarrow> unit outcome" where
  "checkRequiredFlags env ctx this =
     (let f = ctx_flags ctx
      in if (\<not> truthy (flag_id f) \<and> \<not> truthy (flag_package f))
            \<or> (truthy (flag_id f) \<and> truthy (flag_package f))
         then
           (case find (\<lambda>x. decl_name x = ''id'') (command_flags ctx) of
              None \<Rightarrow> (this, [], Inl TypeError)
            | Some idFlag \<Rightarrow>
                (case find (\<lambda>x. decl_name x = ''package'') (command_flags ctx) of
                   None \<Rightarrow> (this, [], Inl TypeError)
                 | Some packageFlag \<Rightarrow>
                     (this, [],
                      Inl (Error (getMessage env ''errorRequiredFlags''
                             [''--'' @ decl_name idFlag @ '' (-'' @ decl_char idFlag @ '')'',
                              ''--'' @ decl_name packageFlag]
                             ''package_install'')))))
         else (this, [], Inr ()))"

text \<open>
  The identifier: the id flag, or the package flag, which is looked up as an alias unless it
  starts with the prefix of a version id. With neither, \<^verbatim>\<open>apvId\<close> stays undefined.
\<close>

definition resolveApvId ::
  "collaborators \<Rightarrow> install_context \<Rightarrow> PackageInstallCommand \<Rightarrow> string option outcome" where
  "resolveApvId env ctx this =
     (let f = ctx_flags ctx
      in if truthy (flag_id f) then (this, [], Inr (flag_id f))
         else if truthy (flag_package f) then
           (case flag_package f of
              None \<Rightarrow> (this, [], Inr None)
            | Some p \<Rightarrow>
                if startsWith p (idPrefix env) then (this, [], Inr (Some p))
                else (case getPackageIdFromAlias env p of
                        Inl e \<Rightarrow> (this, [AliasLookup p], Inl e)
                      | Inr v \<Rightarrow> (this, [AliasLookup p], Inr (Some v))))
         else (this, [], Inr None))"

text \<open>The validation of the identifier; whatever \<^verbatim>\<open>validateId\<close> throws is replaced.\<close>

definition validateApvId ::
  "collaborators \<Rightarrow> string option \<Rightarrow> PackageInstallCommand \<Rightarrow> unit outcome" where
  "validateApvId env apvId this =
     (if validateId env apvId then (this, [], Inr ())
      else (this, [],
            Inl (Error (getMessage env ''invalidIdOrPackage'' [render apvId] ''package_install''))))"

text \<open>
  The assignments from the flags: \<^verbatim>\<open>allPackageVersionId\<close>, \<^verbatim>\<open>maxRetries\<close>,
  \<^verbatim>\<open>installationKey\<close> and \<^verbatim>\<open>publishwait\<close>. A flag that is nil leaves its field as it was.
\<close>

definition readFlags ::
  "collaborators \<Rightarrow> string option \<Rightarrow> flags \<Rightarrow> PackageInstallCommand \<Rightarrow> PackageInstallCommand"
  where
  "readFlags env apvId f this =
     this\<lparr>allPackageVersionId := apvId,
          maxRetries :=
            (case flag_wait f of
               None \<Rightarrow> maxRetries this
             | Some w \<Rightarrow>
                 jsTimes (arith env)
                   (jsDivide (arith env) (of_int RETRY_MINUTES_IN_MILLIS)
                      (of_int (pollIntervalMillis this)))
                   w),
          installationKey :=
            (case flag_installationkey f of
               None \<Rightarrow> installationKey this
             | Some key \<Rightarrow> Some key),
          publishwait :=
            (case flag_publishwait f of
               None \<Rightarrow> publishwait this
             | Some pw \<Rightarrow> pw)\<rparr>"

definition checkApiVersion :: "install_context \<Rightarrow> PackageInstallCommand \<Rightarrow> unit outcome" where
  "checkApiVersion ctx this =
     (if getApiVersion (ctx_org ctx) < 36
      then (this, [],
            Inl (Error ''This command is supported only on API versions 36.0 and higher''))
      else (this, [], Inr ()))"

text \<open>
  \<^verbatim>\<open>Math.ceil((parseInt(this.publishwait) * 60 * 1000) / parseInt(this.replicationPollIntervalMillis))\<close>,
  operation by operation.
\<close>

definition publishWaitRetries :: "collaborators \<Rightarrow> PackageInstallCommand \<Rightarrow> int" where
  "publishWaitRetries env this =
     \<lceil>jsDivide (arith env)
        (jsTimes (arith env) (jsTimes (arith env) (jsParseInt (arith env) (publishwait this)) 60)
           1000)
        (jsParseInt (arith env) (of_int (replicationPollIntervalMillis this)))\<rceil>"

definition queryVersion ::
  "collaborators \<Rightarrow> PackageInstallCommand \<Rightarrow> SubscriberPackageVersion outcome" where
  "queryVersion env this =
     (this,
      [VersionQuery (allPackageVersionId this) (installationKey this)
         (publishWaitRetries env this) (replicationPollIntervalMillis this)],
      getSubscriberPackageVersionQuery env (allPackageVersionId this) (installationKey this)
        (publishWaitRetries env this) (replicationPollIntervalMillis this))"

text \<open>Everything \<^verbatim>\<open>execute\<close> does up to and including the query of the version.\<close>

definition fetchVersion ::
  "collaborators \<Rightarrow> install_context \<Rightarrow> PackageInstallCommand \<Rightarrow> SubscriberPackageVersion outcome"
  where
  "fetchVersion env ctx this =
     andThen (checkRequiredFlags env ctx (this\<lparr>org := Some (ctx_org ctx)\<rparr>)) (\<lambda>this u.
     andThen (resolveApvId env ctx this) (\<lambda>this apvId.
     andThen (validateApvId env apvId this) (\<lambda>this u.
     andThen (checkApiVersion ctx (readFlags env apvId (ctx_flags ctx) this)) (\<lambda>this u.
     queryVersion env this))))"

text \<open>
  \<^verbatim>\<open>_prompt(noninteractive, message)\<close>: the answer is \<^verbatim>\<open>'YES'\<close> without a question when
  \<^verbatim>\<open>noninteractive\<close> is set, and the answer of \<^verbatim>\<open>stdinPrompt\<close> otherwise; calling a
  \<^verbatim>\<open>stdinPrompt\<close> that the constructor was not given is a \<open>TypeError\<close>.
\<close>

definition prompt :: "bool \<Rightarrow> string \<Rightarrow> PackageInstallCommand \<Rightarrow> bool outcome" where
  "prompt noninteractive msg this =
     (if noninteractive
      then (this, [Log []],
            Inr (toUpperCase ''YES'' = ''YES'' \<or> toUpperCase ''YES'' = ''Y''))
      else (case stdinPrompt this of
              None \<Rightarrow> (this, [], Inl TypeError)
            | Some ask \<Rightarrow>
                (let answer = ask msg
                 in (this, [Prompt msg, Log []],
                     Inr (toUpperCase answer = ''YES'' \<or> toUpperCase answer = ''Y'')))))"

text \<open>The confirmation of \<^verbatim>\<open>--upgradetype Delete\<close> for an unlocked package.\<close>

definition confirmUpgradeType ::
  "collaborators \<Rightarrow> install_context \<Rightarrow> SubscriberPackageVersion \<Rightarrow> PackageInstallCommand
   \<Rightarrow> unit outcome" where
  "confirmUpgradeType env ctx spv this =
     (if flag_upgradetype (ctx_flags ctx) = Some UPGRADE_TYPE_KEY_DELETE
         \<and> package2ContainerOptions spv = Some ''Unlocked''
      then andThen
             (prompt (flag_noprompt (ctx_flags ctx))
                (getMessage env ''promptUpgradeType'' [] ''package_install'') this)
             (\<lambda>this accepted.
                if \<not> accepted
                then (this, [],
                      Inl (Error (getMessage env ''promptUpgradeTypeDeny'' [] ''package_install'')))
                else (this, [], Inr ()))
      else (this, [], Inr ()))"

text \<open>The confirmation of the trusted sites; its value is \<^verbatim>\<open>enableExternalSites\<close>.\<close>

definition confirmExternalSites ::
  "collaborators \<Rightarrow> install_context \<Rightarrow> SubscriberPackageVersion \<Rightarrow> PackageInstallCommand
   \<Rightarrow> bool outcome" where
  "confirmExternalSites env ctx spv this =
     (case trustedSites spv of
        None \<Rightarrow> (this, [], Inr False)
      | Some sites \<Rightarrow>
          if length sites > 0
          then andThen
                 (prompt (flag_noprompt (ctx_flags ctx))
                    (getMessage env ''promptRss'' [joinWith ''\<newline>'' sites] ''package_install'')
                    this)
                 (\<lambda>this accepted. (this, [], Inr (if accepted then True else False)))
          else (this, [], Inr False))"

text \<open>
  The construction of the payload, field by field. The two optional fields are written only
  inside their two tests; a warning is logged in the inner \<^verbatim>\<open>else\<close>.
\<close>

definition buildRequest ::
  "collaborators \<Rightarrow> install_context \<Rightarrow> SubscriberPackageVersion \<Rightarrow> bool
   \<Rightarrow> PackageInstallCommand \<Rightarrow> unit outcome" where
  "buildRequest env ctx spv enableExternalSites this =
     (let f = ctx_flags ctx;
          unlocked = (package2ContainerOptions spv = Some ''Unlocked'');
          r0 = (packageInstallRequest this)
                 \<lparr>subscriberPackageVersionKey := allPackageVersionId this,
                  password := installationKey this\<rparr>;
          (r1, log1) =
            (if flag_upgradetype f \<noteq> Some UPGRADE_TYPE_KEY_MIXED
             then if unlocked
                  then (r0\<lparr>upgradeType := mapGet UPGRADE_TYPE_MAP (flag_upgradetype f)\<rparr>, [])
                  else (r0, [Log (packagingMessage env ''install.warningUpgradeTypeOnlyForUnlocked'')])
             else (r0, []));
          (r2, log2) =
            (if flag_apexcompile f \<noteq> Some APEX_COMPILE_KEY_ALL
             then if unlocked
                  then (r1\<lparr>apexCompileType := mapGet APEX_COMPILE_MAP (flag_apexcompile f)\<rparr>, [])
                  else (r1, [Log (packagingMessage env ''install.warningApexCompileOnlyForUnlocked'')])
             else (r1, []));
          r3 = r2\<lparr>securityType := mapGet SECURITY_TYPE_MAP (flag_securitytype f),
                  nameConflictResolution := Some ''Block'',
                  packageInstallSource := Some ''U'',
                  enableRss := Some enableExternalSites\<rparr>
      in (this\<lparr>packageInstallRequest := r3\<rparr>, log1 @ log2, Inr ()))"

text \<open>The create call and the test of the id it returned.\<close>

definition submit :: "install_context \<Rightarrow> PackageInstallCommand \<Rightarrow> string outcome" where
  "submit ctx this =
     (case toolingCreate (ctx_org ctx) (packageInstallRequest this) of
        Inl e \<Rightarrow> (this, [Create (packageInstallRequest this)], Inl e)
      | Inr result_id \<Rightarrow>
          (case result_id of
             None \<Rightarrow>
               (this, [Create (packageInstallRequest this)],
                Inl (Error (''Failed to create PackageInstallRequest for: ''
                            @ render (allPackageVersionId this))))
           | Some packageInstallRequestId \<Rightarrow>
               (this, [Create (packageInstallRequest this)], Inr packageInstallRequestId)))"

text \<open>What \<^verbatim>\<open>execute\<close> does with the version it fetched.\<close>

definition installVersion ::
  "collaborators \<Rightarrow> install_context \<Rightarrow> SubscriberPackageVersion \<Rightarrow> PackageInstallCommand
   \<Rightarrow> PackageInstallRequest outcome" where
  "installVersion env ctx spv this =
     andThen (confirmUpgradeType env ctx spv this) (\<lambda>this u.
     andThen (confirmExternalSites env ctx spv this) (\<lambda>this enableExternalSites.
     andThen (buildRequest env ctx spv enableExternalSites this) (\<lambda>this u.
     andThen (submit ctx this) (\<lambda>this packageInstallRequestId.
     poll env ctx this packageInstallRequestId (maxRetries this) 0))))"

definition execute ::
  "collaborators \<Rightarrow> install_context \<Rightarrow> PackageInstallCommand \<Rightarrow> PackageInstallRequest outcome"
  where
  "execute env ctx this =
     andThen (fetchVersion env ctx this) (\<lambda>this spv. installVersion env ctx spv this)"

subsection \<open>getHumanSuccessMessage\<close>

text \<open>
  The function returns a string and writes nothing; \<^verbatim>\<open>this.org.name\<close> is read in the default
  case only, and is a \<open>TypeError\<close> on a command that never ran \<^verbatim>\<open>execute\<close> or \<^verbatim>\<open>poll\<close>.
\<close>

definition getHumanSuccessMessage ::
  "collaborators \<Rightarrow> PackageInstallCommand \<Rightarrow> PackageInstallRequest \<Rightarrow> error + string" where
  "getHumanSuccessMessage env this result =
     (if Status result = ''SUCCESS''
      then Inr (getMessage env (Status result) [SubscriberPackageVersionKey result]
                  ''package_install_report'')
      else if Status result = ''TERMINATED'' then Inr []
      else (case org this of
              None \<Rightarrow> Inl TypeError
            | Some target \<Rightarrow>
                Inr (getMessage env (Status result) [RequestId result, org_name target]
                       ''package_install_report'')))"

subsection \<open>What the runtime guarantees\<close>



subsection \<open>A notion for the proofs\<close>

text \<open>
  A step is quiet when it makes no create call and leaves the prompt and the payload of
  the command as they were.
\<close>

definition quiet :: "PackageInstallCommand \<Rightarrow> 'a outcome \<Rightarrow> bool" where
  "quiet this m =
     ((\<forall>p. Create p \<notin> set (eventsOf m))
      \<and> stdinPrompt (fst m) = stdinPrompt this
      \<and> packageInstallRequest (fst m) = packageInstallRequest this)"

section \<open>A concrete setting\<close>

text \<open>
  The closed statements below run the definitions in this setting: a message catalogue
  that answers with the key followed by the arguments, identifiers that are valid when they
  start with \<open>04t\<close>, an alias table that knows nothing, a version query that answers with
  a given version, and a remote side that accepts the create call and answers the
  retrieves from a given list, repeating its last entry.

  Its arithmetic is the exact product, the exact quotient and, for \<^verbatim>\<open>parseInt\<close>, the whole
  part of the number. That is what the runtime computes where the operands and the exact
  result are doubles, and where the number prints in decimal notation; the closed
  statements below use it on such numbers only.
\<close>

definition exactArithmetic :: arithmetic where
  "exactArithmetic =
     \<lparr>jsTimes = (\<lambda>a b. a * b),
      jsDivide = (\<lambda>a b. a / b),
      jsParseInt = (\<lambda>a. of_int (if a < 0 then \<lceil>a\<rceil> else \<lfloor>a\<rfloor>))\<rparr>"

definition sampleCollaborators :: "SubscriberPackageVersion \<Rightarrow> collaborators" where
  "sampleCollaborators spv =
     \<lparr>arith = exactArithmetic,
      getMessage = (\<lambda>key args bundle. joinWith '' '' (key # args)),
      packagingMessage = (\<lambda>key. key),
      idPrefix = ''04t'',
      getPackageIdFromAlias = (\<lambda>alias. Inr alias),
      validateId = (\<lambda>v. case v of None \<Rightarrow> False | Some s \<Rightarrow> startsWith s ''04t''),
      getSubscriberPackageVersionQuery = (\<lambda>apvId key retries interval. Inr spv)\<rparr>"

definition unlockedVersion :: SubscriberPackageVersion where
  "unlockedVersion = \<lparr>package2ContainerOptions = Some ''Unlocked'', trustedSites = None\<rparr>"

definition managedVersion :: SubscriberPackageVersion where
  "managedVersion = \<lparr>package2ContainerOptions = Some ''Managed'', trustedSites = None\<rparr>"

definition sampleRequest :: "string \<Rightarrow> install_errors option \<Rightarrow> PackageInstallRequest" where
  "sampleRequest status es =
     \<lparr>RequestId = ''0Hf000000000001'', Status = status,
      SubscriberPackageVersionKey = ''04t000000000001'', Errors = es\<rparr>"

definition sampleOrg :: "PackageInstallRequest list \<Rightarrow> org" where
  "sampleOrg answers =
     \<lparr>org_name = ''scratch-org'',
      getApiVersion = 45,
      toolingCreate = (\<lambda>payload. Inr (Some ''0Hf000000000001'')),
      toolingRetrieve =
        (\<lambda>requestId k. if k < length answers then Inr (answers ! k)
                        else if answers = [] then Inl (Rejected ''no answer'')
                        else Inr (last answers))\<rparr>"

definition sampleFlags :: flags where
  "sampleFlags =
     \<lparr>flag_id = Some ''04t000000000001'', flag_package = None, flag_wait = None,
      flag_installationkey = None, flag_publishwait = None,
      flag_upgradetype = Some ''Mixed'', flag_apexcompile = Some ''all'',
      flag_securitytype = Some ''AdminsOnly'', flag_noprompt = False\<rparr>"

definition sampleContext :: "flags \<Rightarrow> PackageInstallRequest list \<Rightarrow> install_context" where
  "sampleContext f answers =
     \<lparr>ctx_flags = f,
      command_flags =
        [\<lparr>decl_name = ''id'', decl_char = ''i''\<rparr>, \<lparr>decl_name = ''wait'', decl_char = ''w''\<rparr>,
         \<lparr>decl_name = ''package'', decl_char = ''p''\<rparr>],
      ctx_org = sampleOrg answers\<rparr>"

text \<open>A user who answers every question with the given string.\<close>

definition answering :: "string \<Rightarrow> (string \<Rightarrow> string) option" where
  "answering a = Some (\<lambda>question. a)"

section \<open>Properties of MdapiPackage.addMember\<close>

lemma findIndex_Some: "findIndex P xs = Some i \<Longrightarrow> i < length xs \<and> P (xs ! i)"
proof (induction xs arbitrary: i)
  case Nil
  then show ?case by simp
next
  case (Cons x xs)
  then show ?case by (cases "P x") auto
qed

lemma split_sep_nonempty: "split_sep sep s \<noteq> []"
  by (induction s) (auto split: list.splits)

lemma split_sep_first: "split_sep sep s ! 0 = firstSegment sep s"
proof (induction s)
  case Nil
  show ?case by (simp add: firstSegment_def)
next
  case (Cons c cs)
  obtain w ws where "split_sep sep cs = w # ws"
    using split_sep_nonempty [of sep cs] by (cases "split_sep sep cs") auto
  with Cons show ?case by (simp add: firstSegment_def)
qed

lemma replaceBackslashes_clean: "backslash \<notin> set (replaceBackslashes s)"
  by (auto simp: replaceBackslashes_def backslash_def)

lemma trim_bundle: "isBundleType ty \<Longrightarrow> trim ty = ty"
  by (auto simp: isBundleType_def trim_def isWhitespace_def)

lemma trim_Layout: "trim ty \<noteq> ''Layout'' \<Longrightarrow> ty \<noteq> ''Layout''"
  by (auto simp: trim_def isWhitespace_def)

lemma storedName_clean: "ty \<noteq> ''Layout'' \<Longrightarrow> backslash \<notin> set (storedName sep fn ty)"
  by (simp add: storedName_def Let_def replaceBackslashes_clean)

lemma storedName_bundle:
  "isBundleType ty \<Longrightarrow> storedName sep fn ty = replaceBackslashes (firstSegment sep (trim fn))"
  by (auto simp: storedName_def Let_def split_sep_first isBundleType_def)

lemma pushMember_cases: "pushMember ms x = ms \<or> pushMember ms x = ms @ [x]"
  by (simp add: pushMember_def Let_def)

lemma pushMember_mem: "x \<in> set (pushMember ms x)"
  by (induction ms) (auto simp: pushMember_def Let_def truthy_def)

lemma pushMember_set: "set (pushMember ms x) \<subseteq> insert x (set ms)"
  using pushMember_cases [of ms x] by auto

lemma findOrCreateType_props:
  assumes "findOrCreateType ts ty = (ts1, i)"
  shows "i < length ts1"
    and "type_name (ts1 ! i) = ty \<or> type_name (ts1 ! i) = trim ty"
    and "membersOf (ts1 ! i) = membersAt ts i"
    and "\<forall>j < length ts. ts1 ! j = ts ! j"
  using assms
  by (auto simp: findOrCreateType_def membersAt_def membersOf_def nth_append
      dest: findIndex_Some split: option.splits)

lemma noBackslash_append:
  "noBackslashOutsideLayout ts \<Longrightarrow>
   noBackslashOutsideLayout (ts @ [\<lparr>type_name = n, members = None\<rparr>])"
  by (simp add: noBackslashOutsideLayout_def membersOf_def)

lemma findOrCreateType_noBackslash:
  assumes "findOrCreateType ts ty = (ts1, i)" "noBackslashOutsideLayout ts"
  shows "noBackslashOutsideLayout ts1"
proof (cases "findIndex (\<lambda>e. type_name e = ty) ts")
  case None
  with assms show ?thesis by (auto simp: findOrCreateType_def intro: noBackslash_append)
next
  case (Some j)
  with assms show ?thesis by (simp add: findOrCreateType_def)
qed

lemma noBackslash_update:
  assumes "noBackslashOutsideLayout ts"
    and "type_name t \<noteq> ''Layout'' \<Longrightarrow> \<forall>m \<in> set (membersOf t). backslash \<notin> set m"
  shows "noBackslashOutsideLayout (ts[i := t])"
proof -
  have "set (ts[i := t]) \<subseteq> insert t (set ts)" by (rule set_update_subset_insert)
  with assms show ?thesis unfolding noBackslashOutsideLayout_def by blast
qed

lemma noBackslash_nth:
  "noBackslashOutsideLayout ts \<Longrightarrow> i < length ts \<Longrightarrow> type_name (ts ! i) \<noteq> ''Layout'' \<Longrightarrow>
   m \<in> set (membersOf (ts ! i)) \<Longrightarrow> backslash \<notin> set m"
  unfolding noBackslashOutsideLayout_def using nth_mem by blast

text \<open>What a call that returns has written: one entry, at the index of the type.\<close>

lemma addMember_Inr:
  assumes "addMember sep this fullName type = Inr this'"
  obtains fn ty ts1 i where
    "fullName = Some fn" "type = Some ty" "findOrCreateType (types this) ty = (ts1, i)"
    "types this' = ts1[i := (ts1 ! i)\<lparr>members :=
       Some (pushMember (membersOf (ts1 ! i)) (storedName sep fn ty))\<rparr>]"
  using assms
  by (auto simp: addMember_def Let_def membersOf_def split: option.splits if_splits prod.splits)

lemma addMember_keeps_noBackslash:
  assumes "addMember sep this fullName type = Inr this'"
    and "noBackslashOutsideLayout (types this)"
  shows "noBackslashOutsideLayout (types this')"
proof -
  from assms(1) obtain fn ty ts1 i where
    f: "findOrCreateType (types this) ty = (ts1, i)" and
    t: "types this' = ts1[i := (ts1 ! i)\<lparr>members :=
          Some (pushMember (membersOf (ts1 ! i)) (storedName sep fn ty))\<rparr>]"
    by (rule addMember_Inr)
  have inv1: "noBackslashOutsideLayout ts1"
    using f assms(2) by (rule findOrCreateType_noBackslash)
  have i: "i < length ts1" using f by (rule findOrCreateType_props)
  have nm: "type_name (ts1 ! i) = ty \<or> type_name (ts1 ! i) = trim ty"
    using f by (rule findOrCreateType_props)
  let ?e = "(ts1 ! i)\<lparr>members :=
          Some (pushMember (membersOf (ts1 ! i)) (storedName sep fn ty))\<rparr>"
  have "\<forall>m \<in> set (membersOf ?e). backslash \<notin> set m" if nl: "type_name ?e \<noteq> ''Layout''"
  proof
    fix m assume m: "m \<in> set (membersOf ?e)"
    from nl nm have ty: "ty \<noteq> ''Layout''" by (auto dest: trim_Layout)
    from m have "m = storedName sep fn ty \<or> m \<in> set (membersOf (ts1 ! i))"
      using pushMember_set [of "membersOf (ts1 ! i)" "storedName sep fn ty"]
      by (auto simp: membersOf_def)
    then show "backslash \<notin> set m"
    proof
      assume "m = storedName sep fn ty"
      with ty show ?thesis by (simp add: storedName_clean)
    next
      assume "m \<in> set (membersOf (ts1 ! i))"
      with inv1 i nl show ?thesis using noBackslash_nth [of ts1 i m] by simp
    qed
  qed
  with inv1 show ?thesis unfolding t by (rule noBackslash_update)
qed

lemma addMember_bundle:
  assumes "addMember sep this (Some fn) (Some ty) = Inr this'" and b: "isBundleType ty"
  shows "\<exists>i < length (types this').
           type_name (types this' ! i) = ty
         \<and> replaceBackslashes (firstSegment sep (trim fn)) \<in> set (membersOf (types this' ! i))
         \<and> (membersOf (types this' ! i) = membersAt (types this) i
            \<or> membersOf (types this' ! i)
                = membersAt (types this) i @ [replaceBackslashes (firstSegment sep (trim fn))])
         \<and> (\<forall>j < length (types this). j \<noteq> i \<longrightarrow> types this' ! j = types this ! j)"
proof -
  from assms(1) obtain ts1 i where
    f: "findOrCreateType (types this) ty = (ts1, i)" and
    t: "types this' = ts1[i := (ts1 ! i)\<lparr>members :=
          Some (pushMember (membersOf (ts1 ! i)) (storedName sep fn ty))\<rparr>]"
    by (rule addMember_Inr) auto
  note p = findOrCreateType_props [OF f]
  let ?x = "replaceBackslashes (firstSegment sep (trim fn))"
  have s: "storedName sep fn ty = ?x" using b by (rule storedName_bundle)
  have nm: "type_name (ts1 ! i) = ty" using p(2) b by (auto simp: trim_bundle)
  have m: "membersOf (types this' ! i) = pushMember (membersAt (types this) i) ?x"
    using p(1) p(3) by (simp add: t s membersOf_def)
  have "i < length (types this')" using p(1) by (simp add: t)
  moreover have "type_name (types this' ! i) = ty" using p(1) nm by (simp add: t)
  moreover have "?x \<in> set (membersOf (types this' ! i))" by (simp add: m pushMember_mem)
  moreover have "membersOf (types this' ! i) = membersAt (types this) i
            \<or> membersOf (types this' ! i) = membersAt (types this) i @ [?x]"
    unfolding m by (rule pushMember_cases)
  moreover have "\<forall>j < length (types this). j \<noteq> i \<longrightarrow> types this' ! j = types this ! j"
    using p(4) by (simp add: t)
  ultimately show ?thesis by blast
qed

text \<open>
  Where the type is given trimmed and the stored name is not empty, a second call with the
  same pair leaves the package as the first call left it.
\<close>

lemma findIndex_None: "findIndex P xs = None \<Longrightarrow> \<forall>x \<in> set xs. \<not> P x"
  by (induction xs) (auto split: if_splits)

lemma findIndex_append_new:
  "findIndex P xs = None \<Longrightarrow> P y \<Longrightarrow> findIndex P (xs @ [y]) = Some (length xs)"
  by (induction xs) (auto split: if_splits)

lemma findIndex_update_same:
  "findIndex P xs = Some i \<Longrightarrow> P y \<Longrightarrow> findIndex P (xs[i := y]) = Some i"
proof (induction xs arbitrary: i)
  case Nil
  then show ?case by simp
next
  case (Cons x xs)
  show ?case
  proof (cases "P x")
    case True
    with Cons.prems show ?thesis by simp
  next
    case False
    with Cons.prems obtain j where j: "findIndex P xs = Some j" "i = Suc j" by auto
    with Cons.IH [of j] Cons.prems(2) False show ?thesis by simp
  qed
qed

lemma pushMember_idem: "x \<noteq> [] \<Longrightarrow> pushMember (pushMember ms x) x = pushMember ms x"
proof -
  assume x: "x \<noteq> []"
  have t: "truthy (find (\<lambda>m. m = x) zs) \<longleftrightarrow> x \<in> set zs" for zs
    using x by (induction zs) (auto simp: truthy_def)
  show ?thesis by (simp add: pushMember_def Let_def t)
qed

lemma addMember_second_call_unchanged:
  assumes a: "addMember sep this (Some fn) (Some ty) = Inr this1"
    and ty: "trim ty = ty" and x: "storedName sep fn ty \<noteq> []"
  shows "addMember sep this1 (Some fn) (Some ty) = Inr this1"
proof -
  let ?x = "storedName sep fn ty"
  let ?P = "\<lambda>elementType. type_name elementType = ty"
  from a have ne: "trim fn \<noteq> []" "trim ty \<noteq> []"
    by (auto simp: addMember_def split: if_splits)
  obtain ts1 i where f: "findOrCreateType (types this) ty = (ts1, i)"
    by (cases "findOrCreateType (types this) ty") auto
  let ?M = "pushMember (membersOf (ts1 ! i)) ?x"
  let ?e = "(ts1 ! i)\<lparr>members := Some ?M\<rparr>"
  from a ne f have this1: "this1 = this\<lparr>types := ts1[i := ?e]\<rparr>"
    by (simp add: addMember_def Let_def membersOf_def)
  note p = findOrCreateType_props [OF f]
  have nm: "type_name (ts1 ! i) = ty" using p(2) ty by auto
  have fi: "findIndex ?P (ts1[i := ?e]) = Some i"
  proof (cases "findIndex ?P (types this)")
    case None
    with f have "ts1 = types this @ [\<lparr>type_name = trim ty, members = None\<rparr>]"
      "i = length (types this)"
      by (simp_all add: findOrCreateType_def)
    then have "ts1[i := ?e] = types this @ [?e]" by simp
    moreover have "?P ?e" using nm by simp
    ultimately show ?thesis
      using findIndex_append_new [OF None, of ?e] \<open>i = length (types this)\<close> by simp
  next
    case (Some j)
    with f have "ts1 = types this" "i = j" by (simp_all add: findOrCreateType_def)
    with Some have "findIndex ?P ts1 = Some i" by simp
    moreover have "?P ?e" using nm by simp
    ultimately show ?thesis by (rule findIndex_update_same)
  qed
  then have f1: "findOrCreateType (types this1) ty = (ts1[i := ?e], i)"
    by (simp add: this1 findOrCreateType_def)
  have e: "ts1[i := ?e] ! i = ?e" using p(1) by simp
  have "pushMember ?M ?x = ?M" using x by (rule pushMember_idem)
  then have "(ts1[i := ?e])[i := (ts1[i := ?e] ! i)\<lparr>members :=
      Some (pushMember (case members (ts1[i := ?e] ! i) of None \<Rightarrow> [] | Some ms \<Rightarrow> ms) ?x)\<rparr>]
      = ts1[i := ?e]"
    by (simp add: e)
  with ne f1 show ?thesis by (simp add: addMember_def Let_def this1)
qed

text \<open>
  C9. The claim is that a second call with the same pair changes nothing and that no
  members list holds a name twice. The code does otherwise on two inputs, evaluated here on
  the package of the constructor with \<^verbatim>\<open>path.sep = '/'\<close>. A bundle name that starts with the
  separator is stored as the empty string, which \<^verbatim>\<open>!member\<close> takes for "not found": the
  second call pushes it again. A type with a leading blank is searched as given but stored
  trimmed: the second call finds no entry and pushes a second one of the same name. Where
  neither happens the second call changes nothing (\<open>addMember_second_call_unchanged\<close>).
\<close>

theorem addMember_twice_is_not_idempotent:
  "addMember (CHR ''/'') emptyPackage (Some ''/cmp'') (Some ''AuraDefinitionBundle'')
     = Inr (emptyPackage\<lparr>types :=
         [\<lparr>type_name = ''AuraDefinitionBundle'', members = Some ['''']\<rparr>]\<rparr>)
   \<and> addMemberTwice (CHR ''/'') emptyPackage (Some ''/cmp'') (Some ''AuraDefinitionBundle'')
     = Inr (emptyPackage\<lparr>types :=
         [\<lparr>type_name = ''AuraDefinitionBundle'', members = Some ['''', '''']\<rparr>]\<rparr>)
   \<and> addMember (CHR ''/'') emptyPackage (Some ''Foo'') (Some '' ApexClass'')
     = Inr (emptyPackage\<lparr>types :=
         [\<lparr>type_name = ''ApexClass'', members = Some [''Foo'']\<rparr>]\<rparr>)
   \<and> addMemberTwice (CHR ''/'') emptyPackage (Some ''Foo'') (Some '' ApexClass'')
     = Inr (emptyPackage\<lparr>types :=
         [\<lparr>type_name = ''ApexClass'', members = Some [''Foo'']\<rparr>,
          \<lparr>type_name = ''ApexClass'', members = Some [''Foo'']\<rparr>]\<rparr>)"
  by (simp add: addMemberTwice_def addMember_def findOrCreateType_def storedName_def
      pushMember_def emptyPackage_def trim_def isWhitespace_def isBundleType_def
      replaceBackslashes_def truthy_def backslash_def)

text \<open>
  What the code keeps of the two invariants of the members. A call that returns keeps the
  invariant that no name stored outside an entry called \<open>Layout\<close> holds a backslash. A
  call whose type, as given, is one of the three bundle types stores, in the entry of that
  type, the first path segment of the trimmed full name, with forward slashes: the members
  of the entry are the old ones or the old ones followed by that segment, the segment is
  among them, and the other entries stay as they were.
\<close>

theorem addMember_no_backslash_and_first_segment:
  "(addMember sep this fullName type = Inr this' \<and> noBackslashOutsideLayout (types this)
      \<longrightarrow> noBackslashOutsideLayout (types this'))
   \<and> (addMember sep this (Some fn) (Some ty) = Inr this'' \<and> isBundleType ty \<longrightarrow>
        (\<exists>i < length (types this'').
            type_name (types this'' ! i) = ty
          \<and> replaceBackslashes (firstSegment sep (trim fn)) \<in> set (membersOf (types this'' ! i))
          \<and> (membersOf (types this'' ! i) = membersAt (types this) i
             \<or> membersOf (types this'' ! i)
                 = membersAt (types this) i @ [replaceBackslashes (firstSegment sep (trim fn))])
          \<and> (\<forall>j < length (types this). j \<noteq> i \<longrightarrow> types this'' ! j = types this ! j)))"
  using addMember_keeps_noBackslash [of sep this fullName type this']
    addMember_bundle [of sep this fn ty this'']
  by blast

theorem addMember_no_backslash_and_first_segment_witness:
  "noBackslashOutsideLayout (types emptyPackage)
   \<and> addMember (CHR ''/'') emptyPackage (Some [CHR ''x'', backslash, CHR ''y'']) (Some ''ApexPage'')
       = Inr (emptyPackage\<lparr>types := [\<lparr>type_name = ''ApexPage'', members = Some [''x/y'']\<rparr>]\<rparr>)
   \<and> noBackslashOutsideLayout [\<lparr>type_name = ''ApexPage'', members = Some [''x/y'']\<rparr>]
   \<and> isBundleType ''AuraDefinitionBundle''
   \<and> addMember (CHR ''/'') emptyPackage (Some '' cmp/cmp.js'') (Some ''AuraDefinitionBundle'')
       = Inr (emptyPackage\<lparr>types :=
                [\<lparr>type_name = ''AuraDefinitionBundle'', members = Some [''cmp'']\<rparr>]\<rparr>)
   \<and> replaceBackslashes (firstSegment (CHR ''/'') (trim '' cmp/cmp.js'')) = ''cmp''
   \<and> (\<exists>i < 1.
         type_name ([\<lparr>type_name = ''AuraDefinitionBundle'', members = Some [''cmp'']\<rparr>] ! i)
           = ''AuraDefinitionBundle''
       \<and> ''cmp'' \<in> set (membersOf
             ([\<lparr>type_name = ''AuraDefinitionBundle'', members = Some [''cmp'']\<rparr>] ! i)))"
proof -
  let ?P1 = "emptyPackage\<lparr>types := [\<lparr>type_name = ''ApexPage'', members = Some [''x/y'']\<rparr>]\<rparr>"
  let ?P2 = "emptyPackage\<lparr>types :=
                [\<lparr>type_name = ''AuraDefinitionBundle'', members = Some [''cmp'']\<rparr>]\<rparr>"
  have a1: "addMember (CHR ''/'') emptyPackage (Some [CHR ''x'', backslash, CHR ''y''])
              (Some ''ApexPage'') = Inr ?P1"
    by (simp add: addMember_def findOrCreateType_def storedName_def
        pushMember_def emptyPackage_def trim_def isWhitespace_def isBundleType_def
        replaceBackslashes_def truthy_def backslash_def)
  have a2: "addMember (CHR ''/'') emptyPackage (Some '' cmp/cmp.js'')
              (Some ''AuraDefinitionBundle'') = Inr ?P2"
    by (simp add: addMember_def findOrCreateType_def storedName_def
        pushMember_def emptyPackage_def trim_def isWhitespace_def isBundleType_def
        replaceBackslashes_def truthy_def backslash_def)
  have h: "noBackslashOutsideLayout (types emptyPackage)"
    by (simp add: noBackslashOutsideLayout_def emptyPackage_def)
  have b: "isBundleType ''AuraDefinitionBundle''" by (simp add: isBundleType_def)
  have s: "replaceBackslashes (firstSegment (CHR ''/'') (trim '' cmp/cmp.js'')) = ''cmp''"
    by (simp add: replaceBackslashes_def firstSegment_def trim_def isWhitespace_def
        backslash_def)
  have t1: "types ?P1 = [\<lparr>type_name = ''ApexPage'', members = Some [''x/y'']\<rparr>]" by simp
  have t2: "types ?P2 = [\<lparr>type_name = ''AuraDefinitionBundle'', members = Some [''cmp'']\<rparr>]"
    by simp
  note w = addMember_no_backslash_and_first_segment
    [of "CHR ''/''" emptyPackage "Some [CHR ''x'', backslash, CHR ''y'']" "Some ''ApexPage''"
        ?P1 "'' cmp/cmp.js''" "''AuraDefinitionBundle''" ?P2]
  from w a1 h have c1: "noBackslashOutsideLayout (types ?P1)" by blast
  from w a2 b obtain i where "i < length (types ?P2)"
    "type_name (types ?P2 ! i) = ''AuraDefinitionBundle''"
    "replaceBackslashes (firstSegment (CHR ''/'') (trim '' cmp/cmp.js''))
       \<in> set (membersOf (types ?P2 ! i))"
    by blast
  then have c2: "\<exists>i < 1.
         type_name ([\<lparr>type_name = ''AuraDefinitionBundle'', members = Some [''cmp'']\<rparr>] ! i)
           = ''AuraDefinitionBundle''
       \<and> ''cmp'' \<in> set (membersOf
             ([\<lparr>type_name = ''AuraDefinitionBundle'', members = Some [''cmp'']\<rparr>] ! i))"
    unfolding t2 s by auto
  from h a1 c1 b a2 s c2 show ?thesis unfolding t1 by blast
qed

text \<open>
  C10. The claim is that no name stored outside \<open>Layout\<close> holds a backslash, which the
  code keeps (above), and that for the three bundle types only the first path segment of
  the full name is stored. The code does otherwise for a bundle type given with a blank
  around it, evaluated here on the package of the constructor with \<^verbatim>\<open>path.sep = '/'\<close>: the
  type passes the validation and is filed under the trimmed name \<open>AuraDefinitionBundle\<close>,
  but the test for the bundle types reads it as given, so the whole path \<open>cmp/x\<close> is stored
  where the first segment is \<open>cmp\<close>. It is the comparison of the untrimmed type of C9.
\<close>

theorem addMember_padded_bundle_type_stores_whole_path:
  "addMember (CHR ''/'') emptyPackage (Some ''cmp/x'') (Some '' AuraDefinitionBundle'')
     = Inr (emptyPackage\<lparr>types :=
         [\<lparr>type_name = ''AuraDefinitionBundle'', members = Some [''cmp/x'']\<rparr>]\<rparr>)
   \<and> addMember (CHR ''/'') emptyPackage (Some ''cmp/x'') (Some ''AuraDefinitionBundle'')
     = Inr (emptyPackage\<lparr>types :=
         [\<lparr>type_name = ''AuraDefinitionBundle'', members = Some [''cmp'']\<rparr>]\<rparr>)
   \<and> firstSegment (CHR ''/'') (trim ''cmp/x'') = ''cmp''"
  by (simp add: addMember_def findOrCreateType_def storedName_def
      pushMember_def emptyPackage_def trim_def isWhitespace_def isBundleType_def
      replaceBackslashes_def truthy_def backslash_def firstSegment_def)

section \<open>Properties of the retry budgets and of poll\<close>

subsection \<open>Retry budgets\<close>













subsection \<open>The poll\<close>

text \<open>
  A budget that is not whole counts as its ceiling: the poll with a quotient \<open>r\<close> of
  retries does what the poll with \<open>\<lceil>r\<rceil>\<close> retries does.
\<close>

lemma poll_budget_ceiling:
  "poll env ctx this requestId (of_int \<lceil>retries\<rceil>) k = poll env ctx this requestId retries k"
proof (induction env ctx this requestId retries k rule: poll.induct)
  case (1 env ctx this requestId retries k)
  have pos: "0 < (of_int \<lceil>retries\<rceil> :: rat) \<longleftrightarrow> 0 < retries" by simp
  have dec: "(of_int \<lceil>retries\<rceil> :: rat) - 1 = of_int \<lceil>retries - 1\<rceil>" by simp
  show ?case
  proof (cases "toolingRetrieve (ctx_org ctx) requestId k")
    case (Inl e)
    then show ?thesis
      by (simp add: poll.simps [of env ctx this requestId retries k]
          poll.simps [of env ctx this requestId "of_int \<lceil>retries\<rceil>" k])
  next
    case (Inr request)
    show ?thesis
    proof (cases "Status request \<noteq> ''SUCCESS'' \<and> Status request \<noteq> ''ERROR'' \<and> 0 < retries")
      case True
      with "1" [OF refl Inr] have
        "poll env ctx (this\<lparr>org := Some (ctx_org ctx)\<rparr>) requestId (of_int \<lceil>retries - 1\<rceil>) (Suc k)
           = poll env ctx (this\<lparr>org := Some (ctx_org ctx)\<rparr>) requestId (retries - 1) (Suc k)"
        by simp
      with True Inr pos show ?thesis
        by (simp only: poll.simps [of env ctx this requestId retries k]
            poll.simps [of env ctx this requestId "of_int \<lceil>retries\<rceil>" k] dec)
          (simp add: Let_def)
    next
      case False
      with Inr pos show ?thesis
        by (simp only: poll.simps [of env ctx this requestId retries k]
            poll.simps [of env ctx this requestId "of_int \<lceil>retries\<rceil>" k])
          (auto simp: Let_def)
    qed
  qed
qed

text \<open>
  C2. A poll with no retries left whose retrieve brings a resource that is neither
  \<open>SUCCESS\<close> nor \<open>ERROR\<close> returns that resource, after the one retrieve, and throws nothing.
\<close>

theorem poll_without_retries_returns_resource:
  assumes "toolingRetrieve (ctx_org ctx) requestId k = Inr request"
    and "Status request \<noteq> ''SUCCESS''" "Status request \<noteq> ''ERROR''"
  shows "poll env ctx this requestId 0 k
           = (this\<lparr>org := Some (ctx_org ctx)\<rparr>, [Retrieve requestId], Inr request)"
  using assms by (simp add: poll.simps [of env ctx this requestId 0 k])

theorem poll_without_retries_returns_resource_witness:
  "poll (sampleCollaborators unlockedVersion)
     (sampleContext sampleFlags [sampleRequest ''IN_PROGRESS'' None])
     (newPackageInstallCommand None) ''0Hf000000000001'' 0 0
   = ((newPackageInstallCommand None)
        \<lparr>org := Some (sampleOrg [sampleRequest ''IN_PROGRESS'' None])\<rparr>,
      [Retrieve ''0Hf000000000001''], Inr (sampleRequest ''IN_PROGRESS'' None))"
  using poll_without_retries_returns_resource
    [of "sampleContext sampleFlags [sampleRequest ''IN_PROGRESS'' None]" "''0Hf000000000001''" 0
        "sampleRequest ''IN_PROGRESS'' None" "sampleCollaborators unlockedVersion"
        "newPackageInstallCommand None"]
  by (simp add: sampleContext_def sampleOrg_def sampleRequest_def)

lemma appendErrors_lines:
  "appendErrors es i acc
     = acc @ concat (map (\<lambda>i. ''\<newline>'' @ showNat (i + 1) @ '') '' @ message (es ! i))
                      [i..<length es])"
proof (induction es i acc rule: appendErrors.induct)
  case (1 es i acc)
  show ?case
  proof (cases "i < length es")
    case True
    then have "[i..<length es] = i # [i + 1..<length es]" by (simp add: upt_conv_Cons)
    with True "1" show ?thesis by (simp add: appendErrors.simps [of es i acc])
  next
    case False
    then show ?thesis by (simp add: appendErrors.simps [of es i acc])
  qed
qed

lemma readInstallErrorsAsString_lines:
  "Errors request = Some \<lparr>errors = Some es\<rparr> \<Longrightarrow> es \<noteq> [] \<Longrightarrow>
   readInstallErrorsAsString request = ''Installation errors: '' @ numberedLines es"
  by (simp add: readInstallErrorsAsString_def numberedLines_def appendErrors_lines)

lemma readInstallErrorsAsString_two:
  "readInstallErrorsAsString
     (request\<lparr>Errors := Some \<lparr>errors = Some [\<lparr>message = ''bad field''\<rparr>,
                                             \<lparr>message = ''missing perm''\<rparr>]\<rparr>\<rparr>)
   = ''Installation errors: \<newline>1) bad field\<newline>2) missing perm''"
  by (simp add: readInstallErrorsAsString_def appendErrors.simps [of _ 0]
      appendErrors.simps [of _ "Suc 0"] appendErrors.simps [of _ "Suc (Suc 0)"]
      showNat.simps [of "Suc 0"] showNat.simps [of "Suc (Suc 0)"])

lemma readInstallErrorsAsString_empty:
  "Errors request = None \<or> Errors request = Some \<lparr>errors = None\<rparr>
   \<or> Errors request = Some \<lparr>errors = Some []\<rparr> \<Longrightarrow>
   readInstallErrorsAsString request = ''<empty>''"
  by (auto simp: readInstallErrorsAsString_def)

lemma poll_error:
  assumes "toolingRetrieve (ctx_org ctx) requestId k = Inr request" "Status request = ''ERROR''"
  shows "poll env ctx this requestId retries k
           = (this\<lparr>org := Some (ctx_org ctx)\<rparr>,
              [Retrieve requestId,
               LogError ''Encountered errors installing the package!''
                 (readInstallErrorsAsString request)],
              Inl (Error (readInstallErrorsAsString request)))"
  using assms by (simp add: poll.simps [of env ctx this requestId retries k] Let_def)

text \<open>
  C3. A poll whose retrieve brings a resource with status \<open>ERROR\<close> throws an error whose
  message is \<open>readInstallErrorsAsString\<close> of the resource, whatever retries are left. For
  a resource with entries, the message is \<open>Installation errors: \<close> followed by a line for
  each entry, numbered from 1; for the entries \<open>bad field\<close> and \<open>missing perm\<close> it is the
  text of the specification; without entries it is \<open><empty>\<close>.
\<close>

theorem poll_error_status_throws_aggregated_message:
  "(toolingRetrieve (ctx_org ctx) requestId k = Inr request \<and> Status request = ''ERROR'' \<longrightarrow>
      resultOf (poll env ctx this requestId retries k)
        = Inl (Error (readInstallErrorsAsString request)))
   \<and> (Errors request = Some \<lparr>errors = Some es\<rparr> \<and> es \<noteq> [] \<longrightarrow>
        readInstallErrorsAsString request = ''Installation errors: '' @ numberedLines es)
   \<and> readInstallErrorsAsString
        (request\<lparr>Errors := Some \<lparr>errors = Some [\<lparr>message = ''bad field''\<rparr>,
                                                \<lparr>message = ''missing perm''\<rparr>]\<rparr>\<rparr>)
        = ''Installation errors: \<newline>1) bad field\<newline>2) missing perm''
   \<and> (Errors request = None \<or> Errors request = Some \<lparr>errors = None\<rparr>
        \<or> Errors request = Some \<lparr>errors = Some []\<rparr> \<longrightarrow>
        readInstallErrorsAsString request = ''<empty>'')"
  using poll_error [of ctx requestId k request env this retries]
    readInstallErrorsAsString_lines [of request es]
    readInstallErrorsAsString_two [of request]
    readInstallErrorsAsString_empty [of request]
  by (simp add: resultOf_def)

theorem poll_error_status_throws_aggregated_message_witness:
  "toolingRetrieve
     (ctx_org (sampleContext sampleFlags
        [sampleRequest ''ERROR''
           (Some \<lparr>errors = Some [\<lparr>message = ''bad field''\<rparr>, \<lparr>message = ''missing perm''\<rparr>]\<rparr>)]))
     ''0Hf000000000001'' 0
     = Inr (sampleRequest ''ERROR''
           (Some \<lparr>errors = Some [\<lparr>message = ''bad field''\<rparr>, \<lparr>message = ''missing perm''\<rparr>]\<rparr>))
   \<and> resultOf (poll (sampleCollaborators unlockedVersion)
       (sampleContext sampleFlags
          [sampleRequest ''ERROR''
             (Some \<lparr>errors = Some [\<lparr>message = ''bad field''\<rparr>, \<lparr>message = ''missing perm''\<rparr>]\<rparr>)])
       (newPackageInstallCommand None) ''0Hf000000000001'' 24 0)
     = Inl (Error ''Installation errors: \<newline>1) bad field\<newline>2) missing perm'')
   \<and> readInstallErrorsAsString (sampleRequest ''ERROR'' None) = ''<empty>''"
proof -
  let ?es = "[\<lparr>message = ''bad field''\<rparr>, \<lparr>message = ''missing perm''\<rparr>]"
  let ?r = "sampleRequest ''ERROR'' (Some \<lparr>errors = Some ?es\<rparr>)"
  let ?ctx = "sampleContext sampleFlags [?r]"
  have r: "toolingRetrieve (ctx_org ?ctx) ''0Hf000000000001'' 0 = Inr ?r"
    by (simp add: sampleContext_def sampleOrg_def)
  have s: "Status ?r = ''ERROR''" by (simp add: sampleRequest_def)
  have u: "?r\<lparr>Errors := Some \<lparr>errors = Some ?es\<rparr>\<rparr> = ?r" by (simp add: sampleRequest_def)
  note w = poll_error_status_throws_aggregated_message
    [of ?ctx "''0Hf000000000001''" 0 ?r "sampleCollaborators unlockedVersion"
        "newPackageInstallCommand None" 24 ?es]
  from w r s have 1: "resultOf (poll (sampleCollaborators unlockedVersion) ?ctx
       (newPackageInstallCommand None) ''0Hf000000000001'' 24 0)
     = Inl (Error (readInstallErrorsAsString ?r))" by blast
  from w have 2: "readInstallErrorsAsString ?r
     = ''Installation errors: \<newline>1) bad field\<newline>2) missing perm''"
    unfolding u by blast
  have e: "Errors (sampleRequest ''ERROR'' None) = None" by (simp add: sampleRequest_def)
  from poll_error_status_throws_aggregated_message
    [of ?ctx "''0Hf000000000001''" 0 "sampleRequest ''ERROR'' None"
        "sampleCollaborators unlockedVersion" "newPackageInstallCommand None" 24 ?es] e
  have 3: "readInstallErrorsAsString (sampleRequest ''ERROR'' None) = ''<empty>''" by blast
  from r 1 2 3 show ?thesis by simp
qed

section \<open>Properties of execute\<close>

subsection \<open>Sequencing\<close>

lemma andThen_Inl: "andThen (this, evs, Inl e) k = (this, evs, Inl e)"
  by (simp add: andThen_def)

lemma andThen_Inr:
  "andThen (this, evs, Inr x) k = (case k this x of (this', evs', r) \<Rightarrow> (this', evs @ evs', r))"
  by (simp add: andThen_def)

lemma in_events_andThen:
  assumes "ev \<in> set (eventsOf (andThen m k))"
  shows "ev \<in> set (eventsOf m)
       \<or> (\<exists>this evs x. m = (this, evs, Inr x) \<and> ev \<in> set (eventsOf (k this x)))"
proof -
  obtain this evs r where m: "m = (this, evs, r)" by (cases m) auto
  show ?thesis
  proof (cases r)
    case (Inl e)
    with assms m show ?thesis by (simp add: andThen_Inl eventsOf_def)
  next
    case (Inr x)
    obtain this' evs' r' where k: "k this x = (this', evs', r')" by (cases "k this x") auto
    from assms m Inr k show ?thesis by (auto simp: andThen_Inr eventsOf_def)
  qed
qed

lemma events_andThen_cases:
  assumes "ev \<in> set (eventsOf (andThen m k))"
  obtains (first) "ev \<in> set (eventsOf m)"
  | (second) this evs x where "m = (this, evs, Inr x)" "ev \<in> set (eventsOf (k this x))"
  using in_events_andThen [OF assms] by blast

lemma quiet_andThen:
  assumes "quiet this m" and "\<And>this' x. quiet this' (k this' x)"
  shows "quiet this (andThen m k)"
proof -
  obtain this1 evs r where m: "m = (this1, evs, r)" by (cases m) auto
  show ?thesis
  proof (cases r)
    case (Inl e)
    with assms(1) m show ?thesis by (simp add: andThen_Inl quiet_def eventsOf_def)
  next
    case (Inr x)
    obtain this' evs' r' where k: "k this1 x = (this', evs', r')" by (cases "k this1 x") auto
    from assms(2) [of this1 x] k have "quiet this1 (this', evs', r')" by simp
    with assms(1) m Inr k show ?thesis by (auto simp: andThen_Inr quiet_def eventsOf_def)
  qed
qed

lemma quiet_org: "quiet this m \<Longrightarrow> quiet (this\<lparr>org := v\<rparr>) m"
  by (simp add: quiet_def)

subsection \<open>The steps before the create call\<close>

lemma quiet_checkRequiredFlags: "quiet this (checkRequiredFlags env ctx this)"
  by (simp add: checkRequiredFlags_def quiet_def eventsOf_def Let_def split: option.splits)

lemma quiet_resolveApvId: "quiet this (resolveApvId env ctx this)"
  by (simp add: resolveApvId_def quiet_def eventsOf_def Let_def split: option.splits sum.splits)

lemma quiet_validateApvId: "quiet this (validateApvId env apvId this)"
  by (simp add: validateApvId_def quiet_def eventsOf_def)

lemma quiet_checkApiVersion: "quiet this (checkApiVersion ctx (readFlags env apvId f this))"
  by (simp add: checkApiVersion_def readFlags_def quiet_def eventsOf_def)

lemma quiet_queryVersion: "quiet this (queryVersion env this)"
  by (simp add: queryVersion_def quiet_def eventsOf_def)

lemma quiet_fetchVersion: "quiet this (fetchVersion env ctx this)"
proof -
  have "quiet (this\<lparr>org := Some (ctx_org ctx)\<rparr>) (fetchVersion env ctx this)"
    unfolding fetchVersion_def
    by (intro quiet_andThen quiet_checkRequiredFlags quiet_resolveApvId quiet_validateApvId
        quiet_checkApiVersion quiet_queryVersion)
  then show ?thesis by (simp add: quiet_def)
qed

lemma prompt_shape: "\<exists>evs r. prompt n msg this = (this, evs, r) \<and> (\<forall>p. Create p \<notin> set evs)"
  by (simp add: prompt_def Let_def split: option.splits)

lemma confirmUpgradeType_shape:
  "\<exists>evs r. confirmUpgradeType env ctx spv this = (this, evs, r) \<and> (\<forall>p. Create p \<notin> set evs)"
proof -
  obtain evs r where p: "prompt (flag_noprompt (ctx_flags ctx))
      (getMessage env ''promptUpgradeType'' [] ''package_install'') this = (this, evs, r)"
    and n: "\<forall>p. Create p \<notin> set evs"
    using prompt_shape by blast
  show ?thesis
    by (cases r) (auto simp: confirmUpgradeType_def p n andThen_Inl andThen_Inr)
qed

lemma confirmExternalSites_shape:
  "\<exists>evs r. confirmExternalSites env ctx spv this = (this, evs, r) \<and> (\<forall>p. Create p \<notin> set evs)"
proof (cases "trustedSites spv")
  case None
  then show ?thesis by (simp add: confirmExternalSites_def)
next
  case (Some sites)
  obtain evs r where p: "prompt (flag_noprompt (ctx_flags ctx))
      (getMessage env ''promptRss'' [joinWith ''\<newline>'' sites] ''package_install'') this
        = (this, evs, r)"
    and n: "\<forall>p. Create p \<notin> set evs"
    using prompt_shape by blast
  show ?thesis
    by (cases r) (auto simp: confirmExternalSites_def Some p n andThen_Inl andThen_Inr)
qed

lemma poll_no_Create: "Create p \<notin> set (eventsOf (poll env ctx this requestId retries k))"
proof (induction env ctx this requestId retries k rule: poll.induct)
  case (1 env ctx this requestId retries k)
  show ?case
  proof (cases "toolingRetrieve (ctx_org ctx) requestId k")
    case (Inl e)
    then show ?thesis
      by (simp add: poll.simps [of env ctx this requestId retries k] eventsOf_def)
  next
    case (Inr request)
    show ?thesis
    proof (cases "Status request \<noteq> ''SUCCESS'' \<and> Status request \<noteq> ''ERROR'' \<and> 0 < retries")
      case True
      obtain this2 evs r where
        p: "poll env ctx (this\<lparr>org := Some (ctx_org ctx)\<rparr>) requestId (retries - 1) (Suc k)
              = (this2, evs, r)"
        by (cases "poll env ctx (this\<lparr>org := Some (ctx_org ctx)\<rparr>) requestId (retries - 1) (Suc k)")
          auto
      from True "1" [OF refl Inr] have "Create p \<notin> set evs" by (simp add: p eventsOf_def)
      with True Inr p show ?thesis
        by (simp add: poll.simps [of env ctx this requestId retries k] eventsOf_def)
    next
      case False
      with Inr show ?thesis
        by (auto simp: poll.simps [of env ctx this requestId retries k] eventsOf_def Let_def)
    qed
  qed
qed

lemma poll_sets_org: "org (fst (poll env ctx this requestId retries k)) = Some (ctx_org ctx)"
proof (induction env ctx this requestId retries k rule: poll.induct)
  case (1 env ctx this requestId retries k)
  show ?case
  proof (cases "toolingRetrieve (ctx_org ctx) requestId k")
    case (Inl e)
    then show ?thesis
      by (simp add: poll.simps [of env ctx this requestId retries k])
  next
    case (Inr request)
    show ?thesis
    proof (cases "Status request \<noteq> ''SUCCESS'' \<and> Status request \<noteq> ''ERROR'' \<and> 0 < retries")
      case True
      obtain this2 evs r where
        p: "poll env ctx (this\<lparr>org := Some (ctx_org ctx)\<rparr>) requestId (retries - 1) (Suc k)
              = (this2, evs, r)"
        by (cases "poll env ctx (this\<lparr>org := Some (ctx_org ctx)\<rparr>) requestId (retries - 1) (Suc k)")
          auto
      from True "1" [OF refl Inr] have "org this2 = Some (ctx_org ctx)" by (simp add: p)
      with True Inr p show ?thesis
        by (simp add: poll.simps [of env ctx this requestId retries k])
    next
      case False
      with Inr show ?thesis
        by (auto simp: poll.simps [of env ctx this requestId retries k] Let_def)
    qed
  qed
qed

subsection \<open>The payload\<close>

lemma buildRequest_shape:
  "\<exists>this' evs. buildRequest env ctx spv en this = (this', evs, Inr ())
     \<and> (\<forall>p. Create p \<notin> set evs)
     \<and> securityType (packageInstallRequest this')
         = mapGet SECURITY_TYPE_MAP (flag_securitytype (ctx_flags ctx))
     \<and> upgradeType (packageInstallRequest this')
         = (if flag_upgradetype (ctx_flags ctx) \<noteq> Some ''Mixed''
               \<and> package2ContainerOptions spv = Some ''Unlocked''
            then mapGet UPGRADE_TYPE_MAP (flag_upgradetype (ctx_flags ctx))
            else upgradeType (packageInstallRequest this))
     \<and> apexCompileType (packageInstallRequest this')
         = (if flag_apexcompile (ctx_flags ctx) \<noteq> Some ''all''
               \<and> package2ContainerOptions spv = Some ''Unlocked''
            then mapGet APEX_COMPILE_MAP (flag_apexcompile (ctx_flags ctx))
            else apexCompileType (packageInstallRequest this))"
  by (simp add: buildRequest_def Let_def UPGRADE_TYPE_KEY_MIXED_def APEX_COMPILE_KEY_ALL_def
      split: prod.splits)

lemma buildRequest_events:
  "eventsOf (buildRequest env ctx spv en this)
     = (if flag_upgradetype (ctx_flags ctx) \<noteq> Some ''Mixed''
           \<and> package2ContainerOptions spv \<noteq> Some ''Unlocked''
        then [Log (packagingMessage env ''install.warningUpgradeTypeOnlyForUnlocked'')] else [])
       @ (if flag_apexcompile (ctx_flags ctx) \<noteq> Some ''all''
             \<and> package2ContainerOptions spv \<noteq> Some ''Unlocked''
          then [Log (packagingMessage env ''install.warningApexCompileOnlyForUnlocked'')] else [])"
  by (simp add: buildRequest_def Let_def UPGRADE_TYPE_KEY_MIXED_def APEX_COMPILE_KEY_ALL_def
      eventsOf_def split: prod.splits)

lemma submit_shape:
  "\<exists>r. submit ctx this = (this, [Create (packageInstallRequest this)], r)"
  by (simp add: submit_def split: sum.splits option.splits)

text \<open>The payload of a create call of \<open>installVersion\<close> is the one \<open>buildRequest\<close> left.\<close>

lemma installVersion_Create:
  assumes "Create p \<in> set (eventsOf (installVersion env ctx spv this))"
  shows "\<exists>en. p = packageInstallRequest (fst (buildRequest env ctx spv en this))"
proof -
  let ?k4 = "\<lambda>this packageInstallRequestId.
               poll env ctx this packageInstallRequestId (maxRetries this) 0"
  let ?k3 = "\<lambda>this (u::unit). andThen (submit ctx this) ?k4"
  let ?k2 = "\<lambda>this en. andThen (buildRequest env ctx spv en this) ?k3"
  let ?k1 = "\<lambda>this (u::unit). andThen (confirmExternalSites env ctx spv this) ?k2"
  obtain evs1 r1 where c1: "confirmUpgradeType env ctx spv this = (this, evs1, r1)"
    and n1: "\<forall>p. Create p \<notin> set evs1"
    using confirmUpgradeType_shape by blast
  obtain evs2 r2 where c2: "confirmExternalSites env ctx spv this = (this, evs2, r2)"
    and n2: "\<forall>p. Create p \<notin> set evs2"
    using confirmExternalSites_shape by blast
  from assms have "Create p \<in> set (eventsOf (andThen (confirmUpgradeType env ctx spv this) ?k1))"
    by (simp add: installVersion_def)
  then have "Create p \<in> set (eventsOf (andThen (confirmExternalSites env ctx spv this) ?k2))"
  proof (cases rule: events_andThen_cases)
    case first
    with c1 n1 show ?thesis by (simp add: eventsOf_def)
  next
    case (second t e x)
    with c1 show ?thesis by simp
  qed
  then obtain en where "Create p \<in> set (eventsOf (andThen (buildRequest env ctx spv en this) ?k3))"
  proof (cases rule: events_andThen_cases)
    case first
    with c2 n2 show ?thesis by (simp add: eventsOf_def)
  next
    case (second t e x)
    with c2 that [of x] show ?thesis by simp
  qed
  moreover obtain this' evs3 where b: "buildRequest env ctx spv en this = (this', evs3, Inr ())"
    and n3: "\<forall>p. Create p \<notin> set evs3"
    using buildRequest_shape [of env ctx spv en this] by blast
  ultimately have "Create p \<in> set (eventsOf (andThen (submit ctx this') ?k4))"
  proof (cases rule: events_andThen_cases)
    case first
    with b n3 show ?thesis by (simp add: eventsOf_def)
  next
    case (second t e x)
    with b show ?thesis by simp
  qed
  moreover obtain r4 where s: "submit ctx this' = (this', [Create (packageInstallRequest this')], r4)"
    using submit_shape by blast
  ultimately have "p = packageInstallRequest this'"
  proof (cases rule: events_andThen_cases)
    case first
    with s show ?thesis by (simp add: eventsOf_def)
  next
    case (second t e x)
    with poll_no_Create show ?thesis by blast
  qed
  with b show ?thesis by (intro exI [of _ en]) simp
qed

text \<open>A create call of \<open>execute\<close> comes after a version was fetched, with that payload.\<close>

lemma execute_Create:
  assumes "Create p \<in> set (eventsOf (execute env ctx this))"
  shows "\<exists>this1 evs1 spv en. fetchVersion env ctx this = (this1, evs1, Inr spv)
           \<and> packageInstallRequest this1 = packageInstallRequest this
           \<and> p = packageInstallRequest (fst (buildRequest env ctx spv en this1))"
proof -
  have q: "quiet this (fetchVersion env ctx this)" by (rule quiet_fetchVersion)
  then have "Create p \<notin> set (eventsOf (fetchVersion env ctx this))" by (simp add: quiet_def)
  with assms obtain this1 evs1 spv where f: "fetchVersion env ctx this = (this1, evs1, Inr spv)"
    and c: "Create p \<in> set (eventsOf (installVersion env ctx spv this1))"
    unfolding execute_def
    using in_events_andThen [of "Create p" "fetchVersion env ctx this"] by blast
  from q f have "packageInstallRequest this1 = packageInstallRequest this"
    by (simp add: quiet_def)
  with f installVersion_Create [OF c] show ?thesis by blast
qed

text \<open>
  The events of an \<open>installVersion\<close> that makes a create call, in full: the two
  confirmations, what \<open>buildRequest\<close> logged, the create call, and then the poll, if the
  create call returned an id.
\<close>

lemma installVersion_Create_events:
  assumes "Create p \<in> set (eventsOf (installVersion env ctx spv this))"
  shows "\<exists>en post.
           resultOf (confirmExternalSites env ctx spv this) = Inr en
         \<and> p = packageInstallRequest (fst (buildRequest env ctx spv en this))
         \<and> eventsOf (installVersion env ctx spv this)
             = eventsOf (confirmUpgradeType env ctx spv this)
               @ eventsOf (confirmExternalSites env ctx spv this)
               @ eventsOf (buildRequest env ctx spv en this) @ [Create p] @ post
         \<and> (post = []
              \<or> (\<exists>requestId this'. post = eventsOf (poll env ctx this' requestId (maxRetries this') 0)))"
proof -
  obtain evs1 r1 where c1: "confirmUpgradeType env ctx spv this = (this, evs1, r1)"
    and n1: "\<forall>p. Create p \<notin> set evs1"
    using confirmUpgradeType_shape by blast
  obtain evs2 r2 where c2: "confirmExternalSites env ctx spv this = (this, evs2, r2)"
    and n2: "\<forall>p. Create p \<notin> set evs2"
    using confirmExternalSites_shape by blast
  show ?thesis
  proof (cases r1)
    case (Inl e)
    with c1 have "installVersion env ctx spv this = (this, evs1, Inl e)"
      by (simp add: installVersion_def andThen_Inl)
    with assms n1 show ?thesis by (simp add: eventsOf_def)
  next
    case r1: (Inr u)
    show ?thesis
    proof (cases r2)
      case (Inl e)
      with c1 c2 r1 have "installVersion env ctx spv this = (this, evs1 @ evs2, Inl e)"
        by (simp add: installVersion_def andThen_Inl andThen_Inr)
      with assms n1 n2 show ?thesis by (simp add: eventsOf_def)
    next
      case r2: (Inr en)
      obtain this' evs3 where b: "buildRequest env ctx spv en this = (this', evs3, Inr ())"
        and n3: "\<forall>p. Create p \<notin> set evs3"
        using buildRequest_shape [of env ctx spv en this] by blast
      obtain r4 where s: "submit ctx this' = (this', [Create (packageInstallRequest this')], r4)"
        using submit_shape by blast
      let ?pl = "packageInstallRequest this'"
      have "\<exists>post. eventsOf (installVersion env ctx spv this)
               = evs1 @ evs2 @ evs3 @ [Create ?pl] @ post
             \<and> (\<forall>q. Create q \<notin> set post)
             \<and> (post = [] \<or> (\<exists>requestId this''.
                    post = eventsOf (poll env ctx this'' requestId (maxRetries this'') 0)))"
      proof (cases r4)
        case (Inl e)
        with c1 c2 r1 r2 b s have "installVersion env ctx spv this
            = (this', evs1 @ evs2 @ evs3 @ [Create ?pl], Inl e)"
          by (simp add: installVersion_def andThen_Inl andThen_Inr)
        then show ?thesis by (simp add: eventsOf_def)
      next
        case (Inr requestId)
        obtain this5 evs5 r5 where
          p5: "poll env ctx this' requestId (maxRetries this') 0 = (this5, evs5, r5)"
          by (cases "poll env ctx this' requestId (maxRetries this') 0") auto
        have n5: "\<forall>q. Create q \<notin> set evs5"
          using poll_no_Create [of _ env ctx this' requestId "maxRetries this'" 0]
          by (simp add: p5 eventsOf_def)
        have e5: "evs5 = eventsOf (poll env ctx this' requestId (maxRetries this') 0)"
          by (simp add: p5 eventsOf_def)
        from c1 c2 r1 r2 b s Inr p5 have "installVersion env ctx spv this
            = (this5, evs1 @ evs2 @ evs3 @ [Create ?pl] @ evs5, r5)"
          by (simp add: installVersion_def andThen_Inl andThen_Inr)
        then have "eventsOf (installVersion env ctx spv this)
               = evs1 @ evs2 @ evs3 @ [Create ?pl] @ evs5"
          by (simp add: eventsOf_def)
        with n5 e5 show ?thesis by blast
      qed
      then obtain post where
        ev: "eventsOf (installVersion env ctx spv this) = evs1 @ evs2 @ evs3 @ [Create ?pl] @ post"
        and np: "\<forall>q. Create q \<notin> set post"
        and ps: "post = [] \<or> (\<exists>requestId this''.
                    post = eventsOf (poll env ctx this'' requestId (maxRetries this'') 0))"
        by blast
      from assms ev n1 n2 n3 np have pp: "p = ?pl" by auto
      have "resultOf (confirmExternalSites env ctx spv this) = Inr en"
        by (simp add: c2 r2 resultOf_def)
      moreover have "p = packageInstallRequest (fst (buildRequest env ctx spv en this))"
        by (simp add: pp b)
      moreover have "eventsOf (installVersion env ctx spv this)
             = eventsOf (confirmUpgradeType env ctx spv this)
               @ eventsOf (confirmExternalSites env ctx spv this)
               @ eventsOf (buildRequest env ctx spv en this) @ [Create p] @ post"
        unfolding ev pp by (simp add: c1 c2 b eventsOf_def)
      ultimately show ?thesis using ps by blast
    qed
  qed
qed

lemma execute_Create_events:
  assumes "Create p \<in> set (eventsOf (execute env ctx this))"
  shows "\<exists>this1 evs1 spv en post.
           fetchVersion env ctx this = (this1, evs1, Inr spv)
         \<and> packageInstallRequest this1 = packageInstallRequest this
         \<and> p = packageInstallRequest (fst (buildRequest env ctx spv en this1))
         \<and> eventsOf (execute env ctx this)
             = evs1 @ eventsOf (confirmUpgradeType env ctx spv this1)
               @ eventsOf (confirmExternalSites env ctx spv this1)
               @ eventsOf (buildRequest env ctx spv en this1) @ [Create p] @ post
         \<and> (post = []
              \<or> (\<exists>requestId this'. post = eventsOf (poll env ctx this' requestId (maxRetries this') 0)))"
proof -
  have q: "quiet this (fetchVersion env ctx this)" by (rule quiet_fetchVersion)
  then have "Create p \<notin> set (eventsOf (fetchVersion env ctx this))" by (simp add: quiet_def)
  with assms obtain this1 evs1 spv where f: "fetchVersion env ctx this = (this1, evs1, Inr spv)"
    and c: "Create p \<in> set (eventsOf (installVersion env ctx spv this1))"
    unfolding execute_def
    using in_events_andThen [of "Create p" "fetchVersion env ctx this"] by blast
  from q f have pr: "packageInstallRequest this1 = packageInstallRequest this"
    by (simp add: quiet_def)
  have ev: "eventsOf (execute env ctx this) = evs1 @ eventsOf (installVersion env ctx spv this1)"
    by (cases "installVersion env ctx spv this1")
      (simp add: execute_def f andThen_Inr eventsOf_def)
  from installVersion_Create_events [OF c] obtain en post where
    "p = packageInstallRequest (fst (buildRequest env ctx spv en this1))"
    "eventsOf (installVersion env ctx spv this1)
       = eventsOf (confirmUpgradeType env ctx spv this1)
         @ eventsOf (confirmExternalSites env ctx spv this1)
         @ eventsOf (buildRequest env ctx spv en this1) @ [Create p] @ post"
    "post = []
       \<or> (\<exists>requestId this'. post = eventsOf (poll env ctx this' requestId (maxRetries this') 0))"
    by blast
  with f pr ev show ?thesis by auto
qed

subsection \<open>Sample runs\<close>

lemmas run_defs =
  execute_def fetchVersion_def installVersion_def andThen_def checkRequiredFlags_def
  resolveApvId_def validateApvId_def readFlags_def checkApiVersion_def queryVersion_def
  publishWaitRetries_def prompt_def confirmUpgradeType_def confirmExternalSites_def
  buildRequest_def submit_def eventsOf_def resultOf_def Let_def truthy_def startsWith_def
  mapGet_def render_def toUpperCase_def toUpperChar_def
  SECURITY_TYPE_MAP_def UPGRADE_TYPE_MAP_def APEX_COMPILE_MAP_def
  UPGRADE_TYPE_KEY_DELETE_def UPGRADE_TYPE_KEY_MIXED_def APEX_COMPILE_KEY_ALL_def
  DEFAULT_POLL_INTERVAL_MILLIS_def REPLICATION_POLLING_INTERVAL_MILLIS_def
  DEFAULT_MAX_RETRIES_def DEFAULT_PUBLISH_WAIT_MIN_def RETRY_MINUTES_IN_MILLIS_def
  newPackageInstallCommand_def emptyPayload_def
  sampleCollaborators_def exactArithmetic_def unlockedVersion_def managedVersion_def
  sampleRequest_def
  sampleOrg_def sampleFlags_def sampleContext_def answering_def

text \<open>
  An install of a managed version with the default options, answered \<open>SUCCESS\<close> at once:
  the version query, the create call and one retrieve, and no warning.
\<close>

lemma managed_default_run:
  "eventsOf (execute (sampleCollaborators managedVersion)
       (sampleContext sampleFlags [sampleRequest ''SUCCESS'' None])
       (newPackageInstallCommand None))
   = [VersionQuery (Some ''04t000000000001'') None 0 10000,
      Create \<lparr>subscriberPackageVersionKey = Some ''04t000000000001'', password = None,
              upgradeType = None, apexCompileType = None, securityType = Some ''none'',
              nameConflictResolution = Some ''Block'', packageInstallSource = Some ''U'',
              enableRss = Some False\<rparr>,
      Retrieve ''0Hf000000000001'']"
  by (simp add: run_defs poll.simps)

text \<open>
  An install of an unlocked version with \<open>--upgradetype Delete --apexcompile package
  --securitytype AllUsers\<close>, confirmed with \<open>y\<close>.
\<close>

lemma unlocked_delete_run:
  "eventsOf (execute (sampleCollaborators unlockedVersion)
       (sampleContext
          (sampleFlags\<lparr>flag_upgradetype := Some ''Delete'', flag_apexcompile := Some ''package'',
                       flag_securitytype := Some ''AllUsers''\<rparr>)
          [sampleRequest ''SUCCESS'' None])
       (newPackageInstallCommand (answering ''y'')))
   = [VersionQuery (Some ''04t000000000001'') None 0 10000,
      Prompt ''promptUpgradeType'', Log [],
      Create \<lparr>subscriberPackageVersionKey = Some ''04t000000000001'', password = None,
              upgradeType = Some ''delete-only'', apexCompileType = Some ''package'',
              securityType = Some ''full'',
              nameConflictResolution = Some ''Block'', packageInstallSource = Some ''U'',
              enableRss = Some False\<rparr>,
      Retrieve ''0Hf000000000001'']"
  by (simp add: run_defs poll.simps)

subsection \<open>The optional fields of the payload\<close>

text \<open>
  An install of a managed version with \<open>--upgradetype Delete --apexcompile package\<close>:
  no question is asked, both warnings are logged, and the payload holds neither field.
\<close>

lemma managed_delete_run:
  "eventsOf (execute (sampleCollaborators managedVersion)
       (sampleContext
          (sampleFlags\<lparr>flag_upgradetype := Some ''Delete'', flag_apexcompile := Some ''package''\<rparr>)
          [sampleRequest ''SUCCESS'' None])
       (newPackageInstallCommand None))
   = [VersionQuery (Some ''04t000000000001'') None 0 10000,
      Log ''install.warningUpgradeTypeOnlyForUnlocked'',
      Log ''install.warningApexCompileOnlyForUnlocked'',
      Create \<lparr>subscriberPackageVersionKey = Some ''04t000000000001'', password = None,
              upgradeType = None, apexCompileType = None, securityType = Some ''none'',
              nameConflictResolution = Some ''Block'', packageInstallSource = Some ''U'',
              enableRss = Some False\<rparr>,
      Retrieve ''0Hf000000000001'']"
  by (simp add: run_defs poll.simps)

text \<open>
  C4, as amended. An invocation is \<open>execute\<close> on the command the constructor builds. In
  the payload of its create call, \<open>upgradeType\<close> is present only if the flag differs from
  \<open>Mixed\<close> and the fetched version is \<open>Unlocked\<close>, and is then the mapped value of the
  flag; in every other case it is omitted. The same holds of \<open>apexCompileType\<close> with the
  default \<open>all\<close>. Between the confirmations and the create call the run logs the warning
  for a field when its flag differs from the default and the version is not \<open>Unlocked\<close>,
  and nothing else: a flag at its default leaves its field out without a warning.
\<close>

theorem optional_fields_only_for_unlocked:
  "Create p \<in> set (eventsOf (execute env ctx (newPackageInstallCommand prompter))) \<longrightarrow>
     (\<exists>this1 evs1 spv post.
         fetchVersion env ctx (newPackageInstallCommand prompter) = (this1, evs1, Inr spv)
       \<and> upgradeType p
           = (if flag_upgradetype (ctx_flags ctx) \<noteq> Some ''Mixed''
                 \<and> package2ContainerOptions spv = Some ''Unlocked''
              then mapGet UPGRADE_TYPE_MAP (flag_upgradetype (ctx_flags ctx))
              else None)
       \<and> apexCompileType p
           = (if flag_apexcompile (ctx_flags ctx) \<noteq> Some ''all''
                 \<and> package2ContainerOptions spv = Some ''Unlocked''
              then mapGet APEX_COMPILE_MAP (flag_apexcompile (ctx_flags ctx))
              else None)
       \<and> eventsOf (execute env ctx (newPackageInstallCommand prompter))
           = evs1 @ eventsOf (confirmUpgradeType env ctx spv this1)
             @ eventsOf (confirmExternalSites env ctx spv this1)
             @ (if flag_upgradetype (ctx_flags ctx) \<noteq> Some ''Mixed''
                   \<and> package2ContainerOptions spv \<noteq> Some ''Unlocked''
                then [Log (packagingMessage env ''install.warningUpgradeTypeOnlyForUnlocked'')]
                else [])
             @ (if flag_apexcompile (ctx_flags ctx) \<noteq> Some ''all''
                   \<and> package2ContainerOptions spv \<noteq> Some ''Unlocked''
                then [Log (packagingMessage env ''install.warningApexCompileOnlyForUnlocked'')]
                else [])
             @ [Create p] @ post
       \<and> (post = []
            \<or> (\<exists>requestId this'.
                  post = eventsOf (poll env ctx this' requestId (maxRetries this') 0))))"
proof
  let ?new = "newPackageInstallCommand prompter"
  assume c: "Create p \<in> set (eventsOf (execute env ctx ?new))"
  from execute_Create_events [OF c] obtain this1 evs1 spv en post where
    f: "fetchVersion env ctx ?new = (this1, evs1, Inr spv)" and
    q: "packageInstallRequest this1 = packageInstallRequest ?new" and
    p: "p = packageInstallRequest (fst (buildRequest env ctx spv en this1))" and
    ev: "eventsOf (execute env ctx ?new)
           = evs1 @ eventsOf (confirmUpgradeType env ctx spv this1)
             @ eventsOf (confirmExternalSites env ctx spv this1)
             @ eventsOf (buildRequest env ctx spv en this1) @ [Create p] @ post" and
    ps: "post = []
       \<or> (\<exists>requestId this'. post = eventsOf (poll env ctx this' requestId (maxRetries this') 0))"
    by blast
  have n: "upgradeType (packageInstallRequest this1) = None"
    "apexCompileType (packageInstallRequest this1) = None"
    by (simp_all add: q newPackageInstallCommand_def emptyPayload_def)
  from buildRequest_shape [of env ctx spv en this1] p n
  have u: "upgradeType p
           = (if flag_upgradetype (ctx_flags ctx) \<noteq> Some ''Mixed''
                 \<and> package2ContainerOptions spv = Some ''Unlocked''
              then mapGet UPGRADE_TYPE_MAP (flag_upgradetype (ctx_flags ctx))
              else None)"
    and a: "apexCompileType p
           = (if flag_apexcompile (ctx_flags ctx) \<noteq> Some ''all''
                 \<and> package2ContainerOptions spv = Some ''Unlocked''
              then mapGet APEX_COMPILE_MAP (flag_apexcompile (ctx_flags ctx))
              else None)"
    by auto
  note ev' = ev [unfolded buildRequest_events [of env ctx spv en this1] append_assoc]
  from f u a ev' ps
  show "\<exists>this1 evs1 spv post.
         fetchVersion env ctx ?new = (this1, evs1, Inr spv)
       \<and> upgradeType p
           = (if flag_upgradetype (ctx_flags ctx) \<noteq> Some ''Mixed''
                 \<and> package2ContainerOptions spv = Some ''Unlocked''
              then mapGet UPGRADE_TYPE_MAP (flag_upgradetype (ctx_flags ctx))
              else None)
       \<and> apexCompileType p
           = (if flag_apexcompile (ctx_flags ctx) \<noteq> Some ''all''
                 \<and> package2ContainerOptions spv = Some ''Unlocked''
              then mapGet APEX_COMPILE_MAP (flag_apexcompile (ctx_flags ctx))
              else None)
       \<and> eventsOf (execute env ctx ?new)
           = evs1 @ eventsOf (confirmUpgradeType env ctx spv this1)
             @ eventsOf (confirmExternalSites env ctx spv this1)
             @ (if flag_upgradetype (ctx_flags ctx) \<noteq> Some ''Mixed''
                   \<and> package2ContainerOptions spv \<noteq> Some ''Unlocked''
                then [Log (packagingMessage env ''install.warningUpgradeTypeOnlyForUnlocked'')]
                else [])
             @ (if flag_apexcompile (ctx_flags ctx) \<noteq> Some ''all''
                   \<and> package2ContainerOptions spv \<noteq> Some ''Unlocked''
                then [Log (packagingMessage env ''install.warningApexCompileOnlyForUnlocked'')]
                else [])
             @ [Create p] @ post
       \<and> (post = []
            \<or> (\<exists>requestId this'.
                  post = eventsOf (poll env ctx this' requestId (maxRetries this') 0)))"
    by blast
qed

theorem optional_fields_only_for_unlocked_witness:
  "Create \<lparr>subscriberPackageVersionKey = Some ''04t000000000001'', password = None,
           upgradeType = None, apexCompileType = None, securityType = Some ''none'',
           nameConflictResolution = Some ''Block'', packageInstallSource = Some ''U'',
           enableRss = Some False\<rparr>
     \<in> set (eventsOf (execute (sampleCollaborators managedVersion)
         (sampleContext
            (sampleFlags\<lparr>flag_upgradetype := Some ''Delete'', flag_apexcompile := Some ''package''\<rparr>)
            [sampleRequest ''SUCCESS'' None])
         (newPackageInstallCommand None)))
   \<and> (\<exists>this1 evs1 post.
         fetchVersion (sampleCollaborators managedVersion)
           (sampleContext
              (sampleFlags\<lparr>flag_upgradetype := Some ''Delete'', flag_apexcompile := Some ''package''\<rparr>)
              [sampleRequest ''SUCCESS'' None])
           (newPackageInstallCommand None) = (this1, evs1, Inr managedVersion)
       \<and> eventsOf (execute (sampleCollaborators managedVersion)
           (sampleContext
              (sampleFlags\<lparr>flag_upgradetype := Some ''Delete'', flag_apexcompile := Some ''package''\<rparr>)
              [sampleRequest ''SUCCESS'' None])
           (newPackageInstallCommand None))
         = evs1
           @ eventsOf (confirmUpgradeType (sampleCollaborators managedVersion)
               (sampleContext
                  (sampleFlags\<lparr>flag_upgradetype := Some ''Delete'',
                               flag_apexcompile := Some ''package''\<rparr>)
                  [sampleRequest ''SUCCESS'' None])
               managedVersion this1)
           @ eventsOf (confirmExternalSites (sampleCollaborators managedVersion)
               (sampleContext
                  (sampleFlags\<lparr>flag_upgradetype := Some ''Delete'',
                               flag_apexcompile := Some ''package''\<rparr>)
                  [sampleRequest ''SUCCESS'' None])
               managedVersion this1)
           @ [Log ''install.warningUpgradeTypeOnlyForUnlocked'',
              Log ''install.warningApexCompileOnlyForUnlocked'',
              Create \<lparr>subscriberPackageVersionKey = Some ''04t000000000001'', password = None,
                      upgradeType = None, apexCompileType = None, securityType = Some ''none'',
                      nameConflictResolution = Some ''Block'', packageInstallSource = Some ''U'',
                      enableRss = Some False\<rparr>]
           @ post)
   \<and> Create \<lparr>subscriberPackageVersionKey = Some ''04t000000000001'', password = None,
           upgradeType = Some ''delete-only'', apexCompileType = Some ''package'',
           securityType = Some ''full'',
           nameConflictResolution = Some ''Block'', packageInstallSource = Some ''U'',
           enableRss = Some False\<rparr>
     \<in> set (eventsOf (execute (sampleCollaborators unlockedVersion)
         (sampleContext
            (sampleFlags\<lparr>flag_upgradetype := Some ''Delete'', flag_apexcompile := Some ''package'',
                         flag_securitytype := Some ''AllUsers''\<rparr>)
            [sampleRequest ''SUCCESS'' None])
         (newPackageInstallCommand (answering ''y''))))
   \<and> mapGet UPGRADE_TYPE_MAP (Some ''Delete'') = Some ''delete-only''
   \<and> mapGet APEX_COMPILE_MAP (Some ''package'') = Some ''package''"
proof -
  let ?p0 = "\<lparr>subscriberPackageVersionKey = Some ''04t000000000001'', password = None,
           upgradeType = None, apexCompileType = None, securityType = Some ''none'',
           nameConflictResolution = Some ''Block'', packageInstallSource = Some ''U'',
           enableRss = Some False\<rparr>"
  let ?menv = "sampleCollaborators managedVersion"
  let ?mctx = "sampleContext
            (sampleFlags\<lparr>flag_upgradetype := Some ''Delete'', flag_apexcompile := Some ''package''\<rparr>)
            [sampleRequest ''SUCCESS'' None]"
  let ?mcmd = "newPackageInstallCommand None"
  have mc: "Create ?p0 \<in> set (eventsOf (execute ?menv ?mctx ?mcmd))"
    by (simp add: managed_delete_run)
  have mr: "resultOf (fetchVersion ?menv ?mctx ?mcmd) = Inr managedVersion"
    by (simp add: run_defs)
  have mf: "flag_upgradetype (ctx_flags ?mctx) \<noteq> Some ''Mixed''"
    "flag_apexcompile (ctx_flags ?mctx) \<noteq> Some ''all''"
    "package2ContainerOptions managedVersion \<noteq> Some ''Unlocked''"
    "packagingMessage ?menv ''install.warningUpgradeTypeOnlyForUnlocked''
       = ''install.warningUpgradeTypeOnlyForUnlocked''"
    "packagingMessage ?menv ''install.warningApexCompileOnlyForUnlocked''
       = ''install.warningApexCompileOnlyForUnlocked''"
    by (simp_all add: sampleContext_def managedVersion_def sampleCollaborators_def)
  from optional_fields_only_for_unlocked [of ?p0 ?menv ?mctx None] mc
  obtain m1 mevs mspv mpost where
    f0: "fetchVersion ?menv ?mctx ?mcmd = (m1, mevs, Inr mspv)" and
    e0: "eventsOf (execute ?menv ?mctx ?mcmd)
           = mevs @ eventsOf (confirmUpgradeType ?menv ?mctx mspv m1)
             @ eventsOf (confirmExternalSites ?menv ?mctx mspv m1)
             @ (if flag_upgradetype (ctx_flags ?mctx) \<noteq> Some ''Mixed''
                   \<and> package2ContainerOptions mspv \<noteq> Some ''Unlocked''
                then [Log (packagingMessage ?menv ''install.warningUpgradeTypeOnlyForUnlocked'')]
                else [])
             @ (if flag_apexcompile (ctx_flags ?mctx) \<noteq> Some ''all''
                   \<and> package2ContainerOptions mspv \<noteq> Some ''Unlocked''
                then [Log (packagingMessage ?menv ''install.warningApexCompileOnlyForUnlocked'')]
                else [])
             @ [Create ?p0] @ mpost"
    by blast
  from f0 mr have ms: "mspv = managedVersion" by (simp add: resultOf_def)
  have e1: "eventsOf (execute ?menv ?mctx ?mcmd)
         = mevs @ eventsOf (confirmUpgradeType ?menv ?mctx managedVersion m1)
           @ eventsOf (confirmExternalSites ?menv ?mctx managedVersion m1)
           @ [Log ''install.warningUpgradeTypeOnlyForUnlocked'',
              Log ''install.warningApexCompileOnlyForUnlocked'', Create ?p0]
           @ mpost"
    using e0 unfolding ms by (simp only: mf if_True simp_thms append.simps)
  let ?p = "\<lparr>subscriberPackageVersionKey = Some ''04t000000000001'', password = None,
           upgradeType = Some ''delete-only'', apexCompileType = Some ''package'',
           securityType = Some ''full'',
           nameConflictResolution = Some ''Block'', packageInstallSource = Some ''U'',
           enableRss = Some False\<rparr>"
  let ?env = "sampleCollaborators unlockedVersion"
  let ?ctx = "sampleContext
            (sampleFlags\<lparr>flag_upgradetype := Some ''Delete'', flag_apexcompile := Some ''package'',
                         flag_securitytype := Some ''AllUsers''\<rparr>)
            [sampleRequest ''SUCCESS'' None]"
  let ?cmd = "newPackageInstallCommand (answering ''y'')"
  have c: "Create ?p \<in> set (eventsOf (execute ?env ?ctx ?cmd))"
    by (simp add: unlocked_delete_run)
  have r: "resultOf (fetchVersion ?env ?ctx ?cmd) = Inr unlockedVersion"
    by (simp add: run_defs)
  from optional_fields_only_for_unlocked [of ?p ?env ?ctx "answering ''y''"] c
  obtain this1 evs1 spv where f: "fetchVersion ?env ?ctx ?cmd = (this1, evs1, Inr spv)"
    and u: "upgradeType ?p
             = (if flag_upgradetype (ctx_flags ?ctx) \<noteq> Some ''Mixed''
                   \<and> package2ContainerOptions spv = Some ''Unlocked''
                then mapGet UPGRADE_TYPE_MAP (flag_upgradetype (ctx_flags ?ctx))
                else None)"
    and a: "apexCompileType ?p
             = (if flag_apexcompile (ctx_flags ?ctx) \<noteq> Some ''all''
                   \<and> package2ContainerOptions spv = Some ''Unlocked''
                then mapGet APEX_COMPILE_MAP (flag_apexcompile (ctx_flags ?ctx))
                else None)"
    by blast
  from f r have s: "spv = unlockedVersion" by (simp add: resultOf_def)
  from u s have 1: "mapGet UPGRADE_TYPE_MAP (Some ''Delete'') = Some ''delete-only''"
    by (simp add: sampleContext_def sampleFlags_def unlockedVersion_def split: if_splits)
  from a s have 2: "mapGet APEX_COMPILE_MAP (Some ''package'') = Some ''package''"
    by (simp add: sampleContext_def sampleFlags_def unlockedVersion_def split: if_splits)
  from f0 ms have f1: "fetchVersion ?menv ?mctx ?mcmd = (m1, mevs, Inr managedVersion)" by simp
  from mc f1 e1 c 1 2 show ?thesis by blast
qed

text \<open>
  C4 as stated fails where the flags are at their defaults: for a managed version with
  \<open>--upgradetype Mixed --apexcompile all\<close> the two fields are left out of the payload and
  the run logs no warning at all.
\<close>

theorem default_options_no_warning_counterexample:
  "eventsOf (execute (sampleCollaborators managedVersion)
       (sampleContext sampleFlags [sampleRequest ''SUCCESS'' None])
       (newPackageInstallCommand None))
   = [VersionQuery (Some ''04t000000000001'') None 0 10000,
      Create \<lparr>subscriberPackageVersionKey = Some ''04t000000000001'', password = None,
              upgradeType = None, apexCompileType = None, securityType = Some ''none'',
              nameConflictResolution = Some ''Block'', packageInstallSource = Some ''U'',
              enableRss = Some False\<rparr>,
      Retrieve ''0Hf000000000001'']
   \<and> flag_upgradetype sampleFlags = Some ''Mixed''
   \<and> flag_apexcompile sampleFlags = Some ''all''
   \<and> package2ContainerOptions managedVersion \<noteq> Some ''Unlocked''"
  by (intro conjI managed_default_run) (simp_all add: sampleFlags_def managedVersion_def)

subsection \<open>The confirmation of a delete upgrade\<close>

lemma prompt_declined:
  assumes "stdinPrompt this = Some ask"
    and "toUpperCase (ask msg) \<noteq> ''YES''" "toUpperCase (ask msg) \<noteq> ''Y''"
  shows "prompt False msg this = (this, [Prompt msg, Log []], Inr False)"
  using assms by (simp add: prompt_def Let_def)

text \<open>
  C5. When the fetched version is \<open>Unlocked\<close>, the upgrade type is \<open>Delete\<close> and the user
  is asked and answers something other than \<open>yes\<close> or \<open>y\<close> (in any case of the letters),
  \<open>execute\<close> throws the error of the message \<open>promptUpgradeTypeDeny\<close> and makes no create
  call.
\<close>

theorem declined_delete_aborts_before_create:
  assumes "fetchVersion env ctx this = (this1, evs1, Inr spv)"
    and "package2ContainerOptions spv = Some ''Unlocked''"
    and "flag_upgradetype (ctx_flags ctx) = Some ''Delete''"
    and "\<not> flag_noprompt (ctx_flags ctx)"
    and "stdinPrompt this = Some ask"
    and "toUpperCase (ask (getMessage env ''promptUpgradeType'' [] ''package_install'')) \<noteq> ''YES''"
    and "toUpperCase (ask (getMessage env ''promptUpgradeType'' [] ''package_install'')) \<noteq> ''Y''"
  shows "resultOf (execute env ctx this)
           = Inl (Error (getMessage env ''promptUpgradeTypeDeny'' [] ''package_install''))
       \<and> (\<forall>p. Create p \<notin> set (eventsOf (execute env ctx this)))"
proof -
  let ?msg = "getMessage env ''promptUpgradeType'' [] ''package_install''"
  let ?deny = "Error (getMessage env ''promptUpgradeTypeDeny'' [] ''package_install'')"
  have q: "quiet this (fetchVersion env ctx this)" by (rule quiet_fetchVersion)
  with assms(1) have n1: "\<forall>p. Create p \<notin> set evs1" and sp: "stdinPrompt this1 = Some ask"
    using assms(5) by (simp_all add: quiet_def eventsOf_def)
  have "prompt (flag_noprompt (ctx_flags ctx)) ?msg this1
          = (this1, [Prompt ?msg, Log []], Inr False)"
    using prompt_declined [OF sp assms(6) assms(7)] assms(4) by simp
  then have "confirmUpgradeType env ctx spv this1 = (this1, [Prompt ?msg, Log []], Inl ?deny)"
    using assms(2) assms(3)
    by (simp add: confirmUpgradeType_def UPGRADE_TYPE_KEY_DELETE_def andThen_Inr)
  then have "installVersion env ctx spv this1 = (this1, [Prompt ?msg, Log []], Inl ?deny)"
    by (simp add: installVersion_def andThen_Inl)
  with assms(1) have "execute env ctx this = (this1, evs1 @ [Prompt ?msg, Log []], Inl ?deny)"
    by (simp add: execute_def andThen_Inr)
  with n1 show ?thesis by (simp add: resultOf_def eventsOf_def)
qed

theorem declined_delete_aborts_before_create_witness:
  "resultOf (fetchVersion (sampleCollaborators unlockedVersion)
       (sampleContext (sampleFlags\<lparr>flag_upgradetype := Some ''Delete''\<rparr>) [])
       (newPackageInstallCommand (answering ''no''))) = Inr unlockedVersion
   \<and> package2ContainerOptions unlockedVersion = Some ''Unlocked''
   \<and> toUpperCase ''no'' = ''NO''
   \<and> resultOf (execute (sampleCollaborators unlockedVersion)
       (sampleContext (sampleFlags\<lparr>flag_upgradetype := Some ''Delete''\<rparr>) [])
       (newPackageInstallCommand (answering ''no''))) = Inl (Error ''promptUpgradeTypeDeny'')
   \<and> (\<forall>p. Create p \<notin> set (eventsOf (execute (sampleCollaborators unlockedVersion)
       (sampleContext (sampleFlags\<lparr>flag_upgradetype := Some ''Delete''\<rparr>) [])
       (newPackageInstallCommand (answering ''no'')))))"
proof -
  let ?env = "sampleCollaborators unlockedVersion"
  let ?ctx = "sampleContext (sampleFlags\<lparr>flag_upgradetype := Some ''Delete''\<rparr>) []"
  let ?cmd = "newPackageInstallCommand (answering ''no'')"
  have r: "resultOf (fetchVersion ?env ?ctx ?cmd) = Inr unlockedVersion"
    by (simp add: run_defs)
  then have f: "fetchVersion ?env ?ctx ?cmd
      = (fst (fetchVersion ?env ?ctx ?cmd), eventsOf (fetchVersion ?env ?ctx ?cmd),
         Inr unlockedVersion)"
    by (simp add: resultOf_def eventsOf_def prod_eq_iff)
  have u: "package2ContainerOptions unlockedVersion = Some ''Unlocked''"
    by (simp add: unlockedVersion_def)
  have d: "flag_upgradetype (ctx_flags ?ctx) = Some ''Delete''"
    by (simp add: sampleContext_def)
  have n: "\<not> flag_noprompt (ctx_flags ?ctx)"
    by (simp add: sampleContext_def sampleFlags_def)
  have s: "stdinPrompt ?cmd = Some (\<lambda>question. ''no'')"
    by (simp add: newPackageInstallCommand_def answering_def)
  have a: "toUpperCase ''no'' = ''NO''" by (simp add: toUpperCase_def toUpperChar_def)
  have m: "getMessage ?env ''promptUpgradeTypeDeny'' [] ''package_install''
             = ''promptUpgradeTypeDeny''"
    by (simp add: sampleCollaborators_def)
  from declined_delete_aborts_before_create [OF f u d n s] a m r u show ?thesis by simp
qed

subsection \<open>The two identifier flags\<close>

text \<open>
  C6. A flag is set when its value is a string that is not empty. When both identifier flags
  are set or neither is, and the command declares the flags \<open>id\<close> and \<open>package\<close>,
  \<open>execute\<close> throws the error of the message \<open>errorRequiredFlags\<close> with the two flags as
  its arguments, and nothing has happened before: no alias lookup, no query, no create call.
  When exactly one is set the check lets the run go on.
\<close>

theorem identifier_flags_exactly_one:
  "(((\<not> truthy (flag_id (ctx_flags ctx)) \<and> \<not> truthy (flag_package (ctx_flags ctx)))
      \<or> (truthy (flag_id (ctx_flags ctx)) \<and> truthy (flag_package (ctx_flags ctx))))
     \<and> find (\<lambda>x. decl_name x = ''id'') (command_flags ctx) = Some idFlag
     \<and> find (\<lambda>x. decl_name x = ''package'') (command_flags ctx) = Some packageFlag
     \<longrightarrow> execute env ctx this
          = (this\<lparr>org := Some (ctx_org ctx)\<rparr>, [],
             Inl (Error (getMessage env ''errorRequiredFlags''
                    [''--id (-'' @ decl_char idFlag @ '')'', ''--package''] ''package_install''))))
   \<and> (truthy (flag_id (ctx_flags ctx)) \<noteq> truthy (flag_package (ctx_flags ctx))
        \<longrightarrow> checkRequiredFlags env ctx cmd = (cmd, [], Inr ()))"
proof -
  have "execute env ctx this
          = (this\<lparr>org := Some (ctx_org ctx)\<rparr>, [],
             Inl (Error (getMessage env ''errorRequiredFlags''
                    [''--id (-'' @ decl_char idFlag @ '')'', ''--package''] ''package_install'')))"
    if b: "(\<not> truthy (flag_id (ctx_flags ctx)) \<and> \<not> truthy (flag_package (ctx_flags ctx)))
            \<or> (truthy (flag_id (ctx_flags ctx)) \<and> truthy (flag_package (ctx_flags ctx)))"
      and i: "find (\<lambda>x. decl_name x = ''id'') (command_flags ctx) = Some idFlag"
      and p: "find (\<lambda>x. decl_name x = ''package'') (command_flags ctx) = Some packageFlag"
  proof -
    from i have ni: "decl_name idFlag = ''id''" by (auto simp: find_Some_iff)
    from p have np: "decl_name packageFlag = ''package''" by (auto simp: find_Some_iff)
    have "checkRequiredFlags env ctx (this\<lparr>org := Some (ctx_org ctx)\<rparr>)
            = (this\<lparr>org := Some (ctx_org ctx)\<rparr>, [],
               Inl (Error (getMessage env ''errorRequiredFlags''
                    [''--id (-'' @ decl_char idFlag @ '')'', ''--package''] ''package_install'')))"
      using b i p ni np by (auto simp: checkRequiredFlags_def Let_def)
    then show ?thesis by (simp add: execute_def fetchVersion_def andThen_Inl)
  qed
  moreover have "checkRequiredFlags env ctx cmd = (cmd, [], Inr ())"
    if "truthy (flag_id (ctx_flags ctx)) \<noteq> truthy (flag_package (ctx_flags ctx))"
    using that by (auto simp: checkRequiredFlags_def Let_def)
  ultimately show ?thesis by blast
qed

theorem identifier_flags_exactly_one_witness:
  "truthy (flag_id (sampleFlags\<lparr>flag_package := Some ''myAlias''\<rparr>))
   \<and> truthy (flag_package (sampleFlags\<lparr>flag_package := Some ''myAlias''\<rparr>))
   \<and> execute (sampleCollaborators unlockedVersion)
       (sampleContext (sampleFlags\<lparr>flag_package := Some ''myAlias''\<rparr>) [])
       (newPackageInstallCommand None)
     = ((newPackageInstallCommand None)\<lparr>org := Some (sampleOrg [])\<rparr>, [],
        Inl (Error ''errorRequiredFlags --id (-i) --package''))
   \<and> truthy (flag_id sampleFlags) \<noteq> truthy (flag_package sampleFlags)
   \<and> checkRequiredFlags (sampleCollaborators unlockedVersion) (sampleContext sampleFlags [])
       (newPackageInstallCommand None) = (newPackageInstallCommand None, [], Inr ())"
proof -
  let ?env = "sampleCollaborators unlockedVersion"
  let ?both = "sampleFlags\<lparr>flag_package := Some ''myAlias''\<rparr>"
  have t: "truthy (flag_id ?both)" "truthy (flag_package ?both)"
    by (simp_all add: truthy_def sampleFlags_def)
  have o: "truthy (flag_id sampleFlags) \<noteq> truthy (flag_package sampleFlags)"
    by (simp add: truthy_def sampleFlags_def)
  have i: "find (\<lambda>x. decl_name x = ''id'') (command_flags (sampleContext ?both []))
             = Some \<lparr>decl_name = ''id'', decl_char = ''i''\<rparr>"
    by (simp add: sampleContext_def)
  have p: "find (\<lambda>x. decl_name x = ''package'') (command_flags (sampleContext ?both []))
             = Some \<lparr>decl_name = ''package'', decl_char = ''p''\<rparr>"
    by (simp add: sampleContext_def)
  have c: "ctx_flags (sampleContext ?both []) = ?both" "ctx_flags (sampleContext sampleFlags []) = sampleFlags"
    "ctx_org (sampleContext ?both []) = sampleOrg []"
    by (simp_all add: sampleContext_def)
  have m: "getMessage ?env ''errorRequiredFlags'' [''--id (-i)'', ''--package''] ''package_install''
             = ''errorRequiredFlags --id (-i) --package''"
    by (simp add: sampleCollaborators_def)
  from identifier_flags_exactly_one
    [of "sampleContext ?both []" "\<lparr>decl_name = ''id'', decl_char = ''i''\<rparr>"
        "\<lparr>decl_name = ''package'', decl_char = ''p''\<rparr>" ?env "newPackageInstallCommand None"]
    t i p c m
  have 1: "execute ?env (sampleContext ?both []) (newPackageInstallCommand None)
     = ((newPackageInstallCommand None)\<lparr>org := Some (sampleOrg [])\<rparr>, [],
        Inl (Error ''errorRequiredFlags --id (-i) --package''))"
    by simp
  from identifier_flags_exactly_one
    [of "sampleContext sampleFlags []" _ _ ?env _ "newPackageInstallCommand None"] o c
  have 2: "checkRequiredFlags ?env (sampleContext sampleFlags []) (newPackageInstallCommand None)
      = (newPackageInstallCommand None, [], Inr ())"
    by simp
  from t 1 o 2 show ?thesis by blast
qed

subsection \<open>The security type\<close>

lemma SECURITY_TYPE_MAP_apply:
  "SECURITY_TYPE_MAP s
     = (if s = ''AllUsers'' then Some ''full''
        else if s = ''AdminsOnly'' then Some ''none'' else None)"
  by (simp add: SECURITY_TYPE_MAP_def)

text \<open>
  C7. The security type of the payload is the value of \<open>SECURITY_TYPE_MAP\<close> at the flag:
  \<open>full\<close> for \<open>AllUsers\<close>, \<open>none\<close> for \<open>AdminsOnly\<close>, and undefined for every other value
  of the flag, in every create call that \<open>execute\<close> makes.
\<close>

theorem securityType_of_payload:
  "mapGet SECURITY_TYPE_MAP (Some ''AllUsers'') = Some ''full''
   \<and> mapGet SECURITY_TYPE_MAP (Some ''AdminsOnly'') = Some ''none''
   \<and> (v \<noteq> Some ''AllUsers'' \<and> v \<noteq> Some ''AdminsOnly'' \<longrightarrow> mapGet SECURITY_TYPE_MAP v = None)
   \<and> (Create p \<in> set (eventsOf (execute env ctx this)) \<longrightarrow>
        securityType p = mapGet SECURITY_TYPE_MAP (flag_securitytype (ctx_flags ctx)))"
proof -
  have "securityType p = mapGet SECURITY_TYPE_MAP (flag_securitytype (ctx_flags ctx))"
    if c: "Create p \<in> set (eventsOf (execute env ctx this))"
  proof -
    from execute_Create [OF c] obtain this1 spv en where
      p: "p = packageInstallRequest (fst (buildRequest env ctx spv en this1))"
      by blast
    from buildRequest_shape [of env ctx spv en this1] p show ?thesis by auto
  qed
  moreover have "mapGet SECURITY_TYPE_MAP v = None"
    if "v \<noteq> Some ''AllUsers''" "v \<noteq> Some ''AdminsOnly''"
  proof (cases v)
    case None
    then show ?thesis by (simp add: mapGet_def)
  next
    case (Some s)
    with that have "s \<noteq> ''AllUsers''" "s \<noteq> ''AdminsOnly''" by blast+
    then have "SECURITY_TYPE_MAP s = None" by (simp only: SECURITY_TYPE_MAP_apply if_False)
    with Some show ?thesis by (simp only: mapGet_def option.case)
  qed
  moreover have "mapGet SECURITY_TYPE_MAP (Some ''AllUsers'') = Some ''full''"
    "mapGet SECURITY_TYPE_MAP (Some ''AdminsOnly'') = Some ''none''"
    by (simp_all add: mapGet_def SECURITY_TYPE_MAP_def)
  ultimately show ?thesis by blast
qed

theorem securityType_of_payload_witness:
  "mapGet SECURITY_TYPE_MAP (Some ''Everyone'') = None
   \<and> mapGet SECURITY_TYPE_MAP None = None
   \<and> Create \<lparr>subscriberPackageVersionKey = Some ''04t000000000001'', password = None,
              upgradeType = Some ''delete-only'', apexCompileType = Some ''package'',
              securityType = Some ''full'',
              nameConflictResolution = Some ''Block'', packageInstallSource = Some ''U'',
              enableRss = Some False\<rparr>
     \<in> set (eventsOf (execute (sampleCollaborators unlockedVersion)
         (sampleContext
            (sampleFlags\<lparr>flag_upgradetype := Some ''Delete'', flag_apexcompile := Some ''package'',
                         flag_securitytype := Some ''AllUsers''\<rparr>)
            [sampleRequest ''SUCCESS'' None])
         (newPackageInstallCommand (answering ''y''))))
   \<and> mapGet SECURITY_TYPE_MAP (Some ''AllUsers'') = Some ''full''"
proof -
  let ?p = "\<lparr>subscriberPackageVersionKey = Some ''04t000000000001'', password = None,
           upgradeType = Some ''delete-only'', apexCompileType = Some ''package'',
           securityType = Some ''full'',
           nameConflictResolution = Some ''Block'', packageInstallSource = Some ''U'',
           enableRss = Some False\<rparr>"
  let ?env = "sampleCollaborators unlockedVersion"
  let ?ctx = "sampleContext
            (sampleFlags\<lparr>flag_upgradetype := Some ''Delete'', flag_apexcompile := Some ''package'',
                         flag_securitytype := Some ''AllUsers''\<rparr>)
            [sampleRequest ''SUCCESS'' None]"
  let ?cmd = "newPackageInstallCommand (answering ''y'')"
  have c: "Create ?p \<in> set (eventsOf (execute ?env ?ctx ?cmd))"
    by (simp add: unlocked_delete_run)
  have f: "flag_securitytype (ctx_flags ?ctx) = Some ''AllUsers''"
    by (simp add: sampleContext_def)
  have s: "securityType ?p = Some ''full''" by simp
  have ne: "Some ''Everyone'' \<noteq> Some ''AllUsers''" "Some ''Everyone'' \<noteq> Some ''AdminsOnly''"
    "(None :: string option) \<noteq> Some ''AllUsers''" "(None :: string option) \<noteq> Some ''AdminsOnly''"
    by simp_all
  note w = securityType_of_payload [of "Some ''Everyone''" ?p ?env ?ctx ?cmd]
  from w ne have 1: "mapGet SECURITY_TYPE_MAP (Some ''Everyone'') = None" by blast
  from w c have "securityType ?p = mapGet SECURITY_TYPE_MAP (flag_securitytype (ctx_flags ?ctx))"
    by blast
  then have 3: "mapGet SECURITY_TYPE_MAP (Some ''AllUsers'') = Some ''full''"
    unfolding f s by (rule sym)
  from securityType_of_payload [of None ?p ?env ?ctx ?cmd] ne
  have 2: "mapGet SECURITY_TYPE_MAP None = None" by blast
  from 1 2 c 3 show ?thesis by blast
qed

subsection \<open>The message of the result\<close>

text \<open>
  C8. \<open>getHumanSuccessMessage\<close> is a function of the command and the resource and
  nothing else: it causes no event and returns no changed command. For the status
  \<open>SUCCESS\<close> it is the message of that key with the version key of the resource; for
  \<open>TERMINATED\<close> it is the empty string; for any other status it is the message of that
  status with the id of the request and the name of the org, on a command whose org is set,
  as it is on the command that \<open>poll\<close> leaves.
\<close>

theorem getHumanSuccessMessage_by_status:
  "(Status result = ''SUCCESS'' \<longrightarrow>
      getHumanSuccessMessage env this result
        = Inr (getMessage env ''SUCCESS'' [SubscriberPackageVersionKey result]
                 ''package_install_report''))
   \<and> (Status result = ''TERMINATED'' \<longrightarrow> getHumanSuccessMessage env this result = Inr [])
   \<and> (Status result \<noteq> ''SUCCESS'' \<and> Status result \<noteq> ''TERMINATED'' \<and> org this = Some target \<longrightarrow>
        getHumanSuccessMessage env this result
          = Inr (getMessage env (Status result) [RequestId result, org_name target]
                   ''package_install_report''))
   \<and> (poll env ctx cmd requestId retries k = (cmd', evs, Inr result)
        \<and> Status result \<noteq> ''SUCCESS'' \<and> Status result \<noteq> ''TERMINATED'' \<longrightarrow>
        getHumanSuccessMessage env cmd' result
          = Inr (getMessage env (Status result) [RequestId result, org_name (ctx_org ctx)]
                   ''package_install_report''))"
proof -
  have "org cmd' = Some (ctx_org ctx)"
    if "poll env ctx cmd requestId retries k = (cmd', evs, Inr result)"
    using poll_sets_org [of env ctx cmd requestId retries k] that by simp
  then show ?thesis by (auto simp: getHumanSuccessMessage_def)
qed

theorem getHumanSuccessMessage_by_status_witness:
  "getHumanSuccessMessage (sampleCollaborators unlockedVersion) (newPackageInstallCommand None)
       (sampleRequest ''SUCCESS'' None) = Inr ''SUCCESS 04t000000000001''
   \<and> getHumanSuccessMessage (sampleCollaborators unlockedVersion) (newPackageInstallCommand None)
       (sampleRequest ''TERMINATED'' None) = Inr []
   \<and> getHumanSuccessMessage (sampleCollaborators unlockedVersion)
       ((newPackageInstallCommand None)\<lparr>org := Some (sampleOrg [])\<rparr>)
       (sampleRequest ''IN_PROGRESS'' None) = Inr ''IN_PROGRESS 0Hf000000000001 scratch-org''
   \<and> poll (sampleCollaborators unlockedVersion)
       (sampleContext sampleFlags [sampleRequest ''IN_PROGRESS'' None])
       (newPackageInstallCommand None) ''0Hf000000000001'' 0 0
     = ((newPackageInstallCommand None)
          \<lparr>org := Some (sampleOrg [sampleRequest ''IN_PROGRESS'' None])\<rparr>,
        [Retrieve ''0Hf000000000001''], Inr (sampleRequest ''IN_PROGRESS'' None))
   \<and> getHumanSuccessMessage (sampleCollaborators unlockedVersion)
       ((newPackageInstallCommand None)
          \<lparr>org := Some (sampleOrg [sampleRequest ''IN_PROGRESS'' None])\<rparr>)
       (sampleRequest ''IN_PROGRESS'' None) = Inr ''IN_PROGRESS 0Hf000000000001 scratch-org''"
proof -
  let ?env = "sampleCollaborators unlockedVersion"
  let ?new = "newPackageInstallCommand None"
  let ?ctx = "sampleContext sampleFlags [sampleRequest ''IN_PROGRESS'' None]"
  let ?cmd' = "?new\<lparr>org := Some (sampleOrg [sampleRequest ''IN_PROGRESS'' None])\<rparr>"
  have p: "poll ?env ?ctx ?new ''0Hf000000000001'' 0 0
     = (?cmd', [Retrieve ''0Hf000000000001''], Inr (sampleRequest ''IN_PROGRESS'' None))"
    by (simp add: poll.simps sampleContext_def sampleOrg_def sampleRequest_def)
  from getHumanSuccessMessage_by_status
    [of "sampleRequest ''SUCCESS'' None" ?env ?new]
  have 1: "getHumanSuccessMessage ?env ?new (sampleRequest ''SUCCESS'' None)
             = Inr ''SUCCESS 04t000000000001''"
    by (simp add: sampleRequest_def sampleCollaborators_def)
  from getHumanSuccessMessage_by_status
    [of "sampleRequest ''TERMINATED'' None" ?env ?new]
  have 2: "getHumanSuccessMessage ?env ?new (sampleRequest ''TERMINATED'' None) = Inr []"
    by (simp add: sampleRequest_def)
  from getHumanSuccessMessage_by_status
    [of "sampleRequest ''IN_PROGRESS'' None" ?env "?new\<lparr>org := Some (sampleOrg [])\<rparr>"
        "sampleOrg []"]
  have 3: "getHumanSuccessMessage ?env (?new\<lparr>org := Some (sampleOrg [])\<rparr>)
             (sampleRequest ''IN_PROGRESS'' None) = Inr ''IN_PROGRESS 0Hf000000000001 scratch-org''"
    by (simp add: sampleRequest_def sampleCollaborators_def sampleOrg_def)
  from getHumanSuccessMessage_by_status
    [of "sampleRequest ''IN_PROGRESS'' None" ?env _ _ ?ctx ?new "''0Hf000000000001''" 0 0
        ?cmd' "[Retrieve ''0Hf000000000001'']"] p
  have 4: "getHumanSuccessMessage ?env ?cmd' (sampleRequest ''IN_PROGRESS'' None)
             = Inr ''IN_PROGRESS 0Hf000000000001 scratch-org''"
    by (simp add: sampleRequest_def sampleCollaborators_def sampleContext_def sampleOrg_def)
  from 1 2 3 p 4 show ?thesis by blast
qed

end
